theory Spec2Isabelle
  imports Complex_Main
begin

section \<open>Data model (shared/models/document.py)\<close>

text \<open>
  The persisted schema is the one declared by the SQLAlchemy models. A table is the list of
  its rows in insertion order. Python's unbounded integers are \<open>int\<close>, a nullable column is
  an \<open>option\<close>, a float vector is a \<open>real list\<close>, a JSON object that maps names to lists of
  strings is an association list, and a timestamp is a reading of the clock.
\<close>

datatype DocumentStatus = PROCESSING | COMPLETED | FAILED

type_synonym timestamp = nat
type_synonym metadata = "(string \<times> string list) list"
type_synonym vector = "real list"

record document =
  doc_id :: int
  filename :: string
  file_extension :: string
  file_size :: int
  status :: DocumentStatus
  error_message :: "string option"
  markdown_content :: "string option"
  markdown_length :: "int option"
  num_chunks :: int
  chunk_size :: int
  embedding_model :: string
  embedding_dimension :: int
  created_at :: timestamp
  updated_at :: "timestamp option"
  completed_at :: "timestamp option"
  doc_metadata :: metadata

record document_chunk =
  chunk_pk :: int
  document_id :: int
  chunk_index :: int
  chunk_text :: string
  text_length :: int
  embedding :: "vector option"
  chunk_metadata :: metadata
  chunk_created_at :: timestamp

text \<open>\<open>Vector(1536)\<close>: the declared dimension of the embedding column.\<close>

definition EMBEDDING_DIMENSION :: nat where
  "EMBEDDING_DIMENSION = 1536"

definition EMBEDDING_MODEL :: string where
  "EMBEDDING_MODEL = ''text-embedding-3-small''"

record database =
  documents :: "document list"
  document_chunks :: "document_chunk list"

section \<open>Exceptions\<close>

text \<open>
  Every raise of the source is a value. \<open>HTTPException\<close> carries its status code and detail;
  the other constructors carry the message of the exception.
\<close>

datatype exn =
    HTTPException nat string
  | PendingRollbackError
  | StatementError string
  | IntegrityError string
  | DataError string
  | KeyError string
  | FileNotFoundError string
  | ExternalError string

fun digit_char :: "nat \<Rightarrow> char" where
  "digit_char n = (''0123456789'' ! (n mod 10))"

function str_nat :: "nat \<Rightarrow> string" where
  "str_nat n = (if n < 10 then [digit_char n] else str_nat (n div 10) @ [digit_char n])"
  by pat_completeness auto
termination
  by (relation "measure (\<lambda>n. n)") auto

declare str_nat.simps [simp del]

text \<open>
  \<open>str(e)\<close>. An \<open>HTTPException\<close> prints as \<open>"{status_code}: {detail}"\<close>; the other
  exceptions print their message.
\<close>

fun str_exn :: "exn \<Rightarrow> string" where
  "str_exn (HTTPException code detail) = str_nat code @ '': '' @ detail"
| "str_exn PendingRollbackError =
     ''This Session's transaction has been rolled back due to a previous exception during flush.''"
| "str_exn (StatementError m) = m"
| "str_exn (IntegrityError m) = m"
| "str_exn (DataError m) = m"
| "str_exn (KeyError m) = m"
| "str_exn (FileNotFoundError m) = m"
| "str_exn (ExternalError m) = m"

section \<open>The database session\<close>

text \<open>
  A session (\<open>SessionLocal()\<close>, with \<open>autocommit=False\<close>) works inside a transaction.
  \<open>server\<close> is the committed state together with the two id sequences, which are not
  transactional; \<open>working\<close> is what the open transaction sees and has written so far;
  \<open>inactive\<close> says that the transaction was rolled back by an exception during a flush, after
  which the session refuses every statement until it is rolled back or closed.
  What is persisted is \<open>srv_tables (server s)\<close>.

  This is the behaviour of the ORM's \<open>Session\<close>: \<open>flush()\<close> and \<open>bulk_save_objects()\<close> run
  their statements in a subtransaction, and when one fails they roll the enclosing
  transaction back and re-raise; from then on every query and every commit on that session
  raises \<open>PendingRollbackError\<close> until the caller issues \<open>rollback()\<close>. The
  repository and the task never call \<open>rollback()\<close>; the task calls \<open>close()\<close> in its
  \<open>finally\<close>.
\<close>

record pg_server =
  srv_tables :: database
  document_id_seq :: int
  chunk_id_seq :: int

record session =
  server :: pg_server
  working :: database
  inactive :: bool

definition SessionLocal :: "pg_server \<Rightarrow> session" where
  "SessionLocal srv = \<lparr>server = srv, working = srv_tables srv, inactive = False\<rparr>"

definition commit :: "session \<Rightarrow> exn + session" where
  "commit s =
     (if inactive s then Inl PendingRollbackError
      else Inr (s\<lparr>server := (server s)\<lparr>srv_tables := working s\<rparr>\<rparr>))"

text \<open>
  The rollback that a failed flush performs: the transaction's writes are discarded and the
  session stays unusable until it is rolled back or closed by the caller.
\<close>

definition flush_failed :: "session \<Rightarrow> session" where
  "flush_failed s = s\<lparr>working := srv_tables (server s), inactive := True\<rparr>"

definition close :: "session \<Rightarrow> pg_server" where
  "close s = server s"

section \<open>DocumentRepository (shared/repository/document_repository.py)\<close>

text \<open>
  A repository method returns the value or the exception it raises, and the session it
  leaves behind. \<open>now\<close> is the clock reading used for \<open>datetime.utcnow()\<close> and for the
  database's \<open>now()\<close>.
\<close>

definition get_document :: "session \<Rightarrow> int \<Rightarrow> exn + document option" where
  "get_document s did =
     (if inactive s then Inl PendingRollbackError
      else Inr (find (\<lambda>d. doc_id d = did) (documents (working s))))"

text \<open>
  Flushing a modified \<open>Document\<close> object: an UPDATE of its row is emitted only when some
  attribute changed, and every UPDATE stamps \<open>updated_at\<close> (\<open>onupdate=func.now()\<close>).
\<close>

definition stamp :: "timestamp \<Rightarrow> document \<Rightarrow> document \<Rightarrow> document" where
  "stamp now old new = (if new = old then old else new\<lparr>updated_at := Some now\<rparr>)"

definition write_document :: "timestamp \<Rightarrow> document \<Rightarrow> document \<Rightarrow> database \<Rightarrow> database" where
  "write_document now old new db =
     (if new = old then db
      else db\<lparr>documents :=
             map (\<lambda>d. if doc_id d = doc_id old then stamp now old new else d) (documents db)\<rparr>)"

definition create_document ::
  "session \<Rightarrow> timestamp \<Rightarrow> string \<Rightarrow> string \<Rightarrow> int \<Rightarrow> int \<Rightarrow> metadata option
     \<Rightarrow> (exn + document) \<times> session" where
  "create_document s now fname ext fsize csize md =
     (if inactive s then (Inl PendingRollbackError, s)
      else if 255 < length fname \<or> 10 < length ext
      then (Inl (DataError ''value too long for type character varying''), flush_failed s)
      else
        (let i = document_id_seq (server s);
             doc = \<lparr>doc_id = i, filename = fname, file_extension = ext, file_size = fsize,
                    status = PROCESSING, error_message = None, markdown_content = None,
                    markdown_length = None, num_chunks = 0, chunk_size = csize,
                    embedding_model = EMBEDDING_MODEL,
                    embedding_dimension = int EMBEDDING_DIMENSION,
                    created_at = now, updated_at = None, completed_at = None,
                    doc_metadata = (case md of None \<Rightarrow> [] | Some m \<Rightarrow> m)\<rparr>;
             s1 = s\<lparr>server := (server s)\<lparr>document_id_seq := i + 1\<rparr>,
                    working := (working s)\<lparr>documents := documents (working s) @ [doc]\<rparr>\<rparr>
         in case commit s1 of
              Inl e \<Rightarrow> (Inl e, s1)
            | Inr s2 \<Rightarrow> (Inr doc, s2)))"

definition update_document_status ::
  "session \<Rightarrow> timestamp \<Rightarrow> int \<Rightarrow> DocumentStatus \<Rightarrow> string option
     \<Rightarrow> (exn + document option) \<times> session" where
  "update_document_status s now did st err =
     (case get_document s did of
        Inl e \<Rightarrow> (Inl e, s)
      | Inr None \<Rightarrow> (Inr None, s)
      | Inr (Some doc) \<Rightarrow>
          (let d1 = doc\<lparr>status := st, error_message := err\<rparr>;
               d2 = (if st = COMPLETED then d1\<lparr>completed_at := Some now\<rparr> else d1);
               s1 = s\<lparr>working := write_document now doc d2 (working s)\<rparr>
           in case commit s1 of
                Inl e \<Rightarrow> (Inl e, s1)
              | Inr s2 \<Rightarrow> (Inr (Some (stamp now doc d2)), s2)))"

definition update_document_content ::
  "session \<Rightarrow> timestamp \<Rightarrow> int \<Rightarrow> string \<Rightarrow> int \<Rightarrow> int
     \<Rightarrow> (exn + document option) \<times> session" where
  "update_document_content s now did content content_length n =
     (case get_document s did of
        Inl e \<Rightarrow> (Inl e, s)
      | Inr None \<Rightarrow> (Inr None, s)
      | Inr (Some doc) \<Rightarrow>
          (let d1 = doc\<lparr>markdown_content := Some content,
                       markdown_length := Some content_length, num_chunks := n\<rparr>;
               s1 = s\<lparr>working := write_document now doc d1 (working s)\<rparr>
           in case commit s1 of
                Inl e \<Rightarrow> (Inl e, s1)
              | Inr s2 \<Rightarrow> (Inr (Some (stamp now doc d1)), s2)))"

text \<open>
  \<open>db.delete(document)\<close> removes the row and, through \<open>cascade="all, delete-orphan"\<close> and
  \<open>ON DELETE CASCADE\<close>, every chunk that refers to it.
\<close>

definition delete_cascade :: "int \<Rightarrow> database \<Rightarrow> database" where
  "delete_cascade did db =
     db\<lparr>documents := filter (\<lambda>d. doc_id d \<noteq> did) (documents db),
        document_chunks := filter (\<lambda>c. document_id c \<noteq> did) (document_chunks db)\<rparr>"

definition delete_document :: "session \<Rightarrow> int \<Rightarrow> (exn + bool) \<times> session" where
  "delete_document s did =
     (case get_document s did of
        Inl e \<Rightarrow> (Inl e, s)
      | Inr None \<Rightarrow> (Inr False, s)
      | Inr (Some doc) \<Rightarrow>
          (let s1 = s\<lparr>working := delete_cascade (doc_id doc) (working s)\<rparr>
           in case commit s1 of
                Inl e \<Rightarrow> (Inl e, s1)
              | Inr s2 \<Rightarrow> (Inr True, s2)))"

subsection \<open>Chunks\<close>

text \<open>The dictionaries of \<open>chunks_data\<close>; the two keys read with \<open>get\<close> may be absent.\<close>

record chunk_data =
  cd_chunk_index :: int
  cd_text :: string
  cd_embedding :: "vector option"
  cd_chunk_metadata :: "metadata option"

text \<open>A \<open>DocumentChunk\<close> object that has not been saved: it has no id and no timestamp yet.\<close>

record chunk_object =
  co_document_id :: int
  co_chunk_index :: int
  co_text :: string
  co_text_length :: int
  co_embedding :: "vector option"
  co_chunk_metadata :: metadata

definition DocumentChunk :: "int \<Rightarrow> chunk_data \<Rightarrow> chunk_object" where
  "DocumentChunk did data =
     \<lparr>co_document_id = did, co_chunk_index = cd_chunk_index data, co_text = cd_text data,
      co_text_length = int (length (cd_text data)), co_embedding = cd_embedding data,
      co_chunk_metadata = (case cd_chunk_metadata data of None \<Rightarrow> [] | Some m \<Rightarrow> m)\<rparr>"

text \<open>
  A vector bound to the \<open>Vector(1536)\<close> column must have exactly that many components.
\<close>

definition vector_ok :: "vector \<Rightarrow> bool" where
  "vector_ok v = (length v = EMBEDDING_DIMENSION)"

text \<open>
  One INSERT into \<open>document_chunks\<close>. The embedding is checked when the statement's
  parameters are bound; the id comes from the sequence; the foreign key to \<open>documents.id\<close> is
  checked by the database.
\<close>

definition insert_chunk ::
  "timestamp \<Rightarrow> chunk_object \<Rightarrow> session \<Rightarrow> (exn + document_chunk) \<times> session" where
  "insert_chunk now obj s =
     (if (case co_embedding obj of None \<Rightarrow> False | Some v \<Rightarrow> \<not> vector_ok v)
      then (Inl (StatementError ''expected 1536 dimensions''), s)
      else
        (let i = chunk_id_seq (server s);
             s1 = s\<lparr>server := (server s)\<lparr>chunk_id_seq := i + 1\<rparr>\<rparr>;
             row = \<lparr>chunk_pk = i, document_id = co_document_id obj,
                    chunk_index = co_chunk_index obj, chunk_text = co_text obj,
                    text_length = co_text_length obj, embedding = co_embedding obj,
                    chunk_metadata = co_chunk_metadata obj, chunk_created_at = now\<rparr>
         in if find (\<lambda>d. doc_id d = co_document_id obj) (documents (working s)) = None
            then (Inl (IntegrityError ''violates foreign key constraint''), s1)
            else (Inr row,
                  s1\<lparr>working :=
                       (working s)\<lparr>document_chunks := document_chunks (working s) @ [row]\<rparr>\<rparr>)))"

fun bulk_insert ::
  "timestamp \<Rightarrow> chunk_object list \<Rightarrow> session \<Rightarrow> (exn + document_chunk list) \<times> session" where
  "bulk_insert now [] s = (Inr [], s)"
| "bulk_insert now (obj # objs) s =
     (case insert_chunk now obj s of
        (Inl e, s1) \<Rightarrow> (Inl e, s1)
      | (Inr row, s1) \<Rightarrow>
          (case bulk_insert now objs s1 of
             (Inl e, s2) \<Rightarrow> (Inl e, s2)
           | (Inr rows, s2) \<Rightarrow> (Inr (row # rows), s2)))"

text \<open>
  \<open>bulk_save_objects(chunks, return_defaults=True)\<close> inserts the objects one by one inside
  the session's transaction; when a statement fails it rolls the transaction back and
  re-raises.
\<close>

definition bulk_save_objects ::
  "timestamp \<Rightarrow> chunk_object list \<Rightarrow> session \<Rightarrow> (exn + document_chunk list) \<times> session" where
  "bulk_save_objects now objs s =
     (if inactive s then (Inl PendingRollbackError, s)
      else case bulk_insert now objs s of
             (Inl e, s1) \<Rightarrow> (Inl e, flush_failed s1)
           | (Inr rows, s1) \<Rightarrow> (Inr rows, s1))"

definition create_chunks_batch ::
  "session \<Rightarrow> timestamp \<Rightarrow> int \<Rightarrow> chunk_data list \<Rightarrow> (exn + document_chunk list) \<times> session" where
  "create_chunks_batch s now did chunks_data =
     (let chunks = map (DocumentChunk did) chunks_data
      in case bulk_save_objects now chunks s of
           (Inl e, s1) \<Rightarrow> (Inl e, s1)
         | (Inr rows, s1) \<Rightarrow>
             (case commit s1 of
                Inl e \<Rightarrow> (Inl e, s1)
              | Inr s2 \<Rightarrow> (Inr rows, s2)))"

text \<open>
  A negative OFFSET or LIMIT is rejected by the database. \<open>order_by(asc(chunk_index))\<close> is a
  stable sort of the rows on that key.
\<close>

definition get_chunks_by_document ::
  "session \<Rightarrow> int \<Rightarrow> int \<Rightarrow> int \<Rightarrow> exn + document_chunk list" where
  "get_chunks_by_document s did skip limit =
     (if inactive s then Inl PendingRollbackError
      else if skip < 0 then Inl (DataError ''OFFSET must not be negative'')
      else if limit < 0 then Inl (DataError ''LIMIT must not be negative'')
      else Inr (take (nat limit) (drop (nat skip)
             (sort_key chunk_index
                (filter (\<lambda>c. document_id c = did) (document_chunks (working s)))))))"

subsection \<open>Similarity search\<close>

text \<open>
  The distance column: \<open>embedding <=> query\<close> is NULL on a row whose embedding is NULL.
  The operator itself belongs to the database; it is the parameter \<open>cosine_distance\<close>, with
  values in any linear order. \<open>ORDER BY distance ASC\<close> puts the NULLs last.
\<close>

fun distance_le :: "'d::linorder option \<Rightarrow> 'd option \<Rightarrow> bool" where
  "distance_le (Some a) (Some b) = (a \<le> b)"
| "distance_le None (Some b) = False"
| "distance_le a None = True"

fun insert_by_distance ::
  "'a \<times> 'd::linorder option \<Rightarrow> ('a \<times> 'd option) list \<Rightarrow> ('a \<times> 'd option) list" where
  "insert_by_distance r [] = [r]"
| "insert_by_distance r (x # xs) =
     (if distance_le (snd r) (snd x) then r # x # xs else x # insert_by_distance r xs)"

definition order_by_distance :: "('a \<times> 'd::linorder option) list \<Rightarrow> ('a \<times> 'd option) list" where
  "order_by_distance rs = foldr insert_by_distance rs []"

text \<open>
  The rows the query ranks: \<open>if document_id:\<close> adds the filter for a truthy id only, so
  neither for \<open>None\<close> nor for 0.
\<close>

definition candidates :: "session \<Rightarrow> int option \<Rightarrow> document_chunk list" where
  "candidates s did =
     (case did of
        None \<Rightarrow> document_chunks (working s)
      | Some i \<Rightarrow>
          (if i \<noteq> 0 then filter (\<lambda>c. document_id c = i) (document_chunks (working s))
           else document_chunks (working s)))"

text \<open>
  The query vector is bound as a value of the column's type \<open>Vector(1536)\<close>, so a vector of
  another length fails when the statement is prepared, as it does on insert; a negative
  LIMIT is rejected by the database. Otherwise the result is the first \<open>limit\<close> rows in
  ascending order of distance.
\<close>

definition search_similar_chunks ::
  "(vector \<Rightarrow> vector \<Rightarrow> 'd::linorder) \<Rightarrow> session \<Rightarrow> vector \<Rightarrow> int \<Rightarrow> int option
     \<Rightarrow> exn + (document_chunk \<times> 'd option) list" where
  "search_similar_chunks cosine_distance s q limit did =
     (if inactive s then Inl PendingRollbackError
      else if \<not> vector_ok q then Inl (StatementError ''expected 1536 dimensions'')
      else if limit < 0 then Inl (DataError ''LIMIT must not be negative'')
      else Inr (take (nat limit)
             (order_by_distance
                (map (\<lambda>c. (c, map_option (\<lambda>v. cosine_distance v q) (embedding c)))
                   (candidates s did)))))"

text \<open>The call that omits \<open>limit\<close> and \<open>document_id\<close>: \<open>limit: int = 10\<close>, \<open>document_id = None\<close>.\<close>

definition search_similar_chunks_default ::
  "(vector \<Rightarrow> vector \<Rightarrow> 'd::linorder) \<Rightarrow> session \<Rightarrow> vector
     \<Rightarrow> exn + (document_chunk \<times> 'd option) list" where
  "search_similar_chunks_default cosine_distance s q =
     search_similar_chunks cosine_distance s q 10 None"

text \<open>
  The search of \<open>DocumentAgent._retrieve_context\<close> (chat-service/agents/document_agent.py),
  on a session of its own: \<open>limit=5, document_id=None\<close>.
\<close>

definition retrieve_context_results ::
  "(vector \<Rightarrow> vector \<Rightarrow> 'd::linorder) \<Rightarrow> pg_server \<Rightarrow> vector
     \<Rightarrow> exn + (document_chunk \<times> 'd option) list" where
  "retrieve_context_results cosine_distance srv query_embedding =
     search_similar_chunks cosine_distance (SessionLocal srv) query_embedding 5 None"

section \<open>The update route (document-service/routes/documents.py)\<close>

record update_document_response =
  ur_message :: string
  ur_document_id :: int
  ur_updated_fields :: "(string \<times> string) list"

text \<open>
  \<open>update_data.filename\<close> is \<open>None\<close> when the request has no filename. The commit flushes the
  modified object; a filename longer than the column's \<open>String(255)\<close> makes the UPDATE fail.
\<close>

definition update_document ::
  "session \<Rightarrow> timestamp \<Rightarrow> int \<Rightarrow> string option
     \<Rightarrow> (exn + update_document_response) \<times> session" where
  "update_document s now did fname =
     (case get_document s did of
        Inl e \<Rightarrow> (Inl e, s)
      | Inr None \<Rightarrow> (Inl (HTTPException 404 ''Document not found''), s)
      | Inr (Some doc) \<Rightarrow>
          (case fname of
             None \<Rightarrow>
               (Inr \<lparr>ur_message = ''No fields to update'', ur_document_id = did,
                      ur_updated_fields = []\<rparr>, s)
           | Some f \<Rightarrow>
               (let d1 = doc\<lparr>filename := f\<rparr>
                in if d1 \<noteq> doc \<and> 255 < length f
                   then (Inl (DataError ''value too long for type character varying''),
                         flush_failed s)
                   else
                     (let s1 = s\<lparr>working := write_document now doc d1 (working s)\<rparr>
                      in case commit s1 of
                           Inl e \<Rightarrow> (Inl e, s1)
                         | Inr s2 \<Rightarrow>
                             (Inr \<lparr>ur_message = ''Document updated successfully'',
                                    ur_document_id = did,
                                    ur_updated_fields = [(''filename'', f)]\<rparr>, s2)))))"

section \<open>The ingestion pipeline (document-service/services/document_processor.py)\<close>

text \<open>
  The converter, the Markdown export, the chunker and the embedder are external. Each is a
  function that returns its value or the message of the exception it raises.
\<close>

record dl_chunk =
  dl_text :: string
  dl_doc_items :: "string list"
  dl_headings :: "string list option"

record 'doc services =
  converter :: "string \<Rightarrow> string + 'doc"
  export_to_markdown :: "'doc \<Rightarrow> string + string"
  chunker :: "'doc \<Rightarrow> int \<Rightarrow> string + dl_chunk list"
  embed_documents :: "string list \<Rightarrow> string + vector list"

record chunk =
  ck_text :: string
  ck_meta :: metadata

record embedding_data =
  ed_chunk_id :: int
  ed_text :: string
  ed_metadata :: metadata
  ed_embedding :: vector
  ed_embedding_dimension :: int

record ChunkPreview =
  cp_text :: string
  cp_metadata :: metadata

record DocumentProcessingResponse =
  r_status :: string
  r_filename :: string
  r_markdown_length :: int
  r_num_chunks :: int
  r_max_tokens_per_chunk :: int
  r_embedding_model :: string
  r_embedding_dimension :: int
  r_chunking_method :: string
  r_tokenizer :: string
  r_markdown_preview :: string
  r_chunks_preview :: "ChunkPreview list"
  r_embeddings :: "embedding_data list"

text \<open>An entry of \<open>jobs_storage\<close>, as the upload route creates it.\<close>

record job =
  job_id :: string
  job_document_id :: int
  job_status :: string
  job_filename :: string
  job_created_at :: timestamp
  job_completed_at :: "timestamp option"
  job_error :: "string option"
  job_result :: "DocumentProcessingResponse option"

definition new_job :: "timestamp \<Rightarrow> string \<Rightarrow> int \<Rightarrow> string \<Rightarrow> job" where
  "new_job now jid did fname =
     \<lparr>job_id = jid, job_document_id = did, job_status = ''processing'', job_filename = fname,
      job_created_at = now, job_completed_at = None, job_error = None, job_result = None\<rparr>"

definition convert_document :: "'doc services \<Rightarrow> string \<Rightarrow> exn + 'doc" where
  "convert_document sv file_path =
     (case converter sv file_path of
        Inl m \<Rightarrow> Inl (HTTPException 500 (''Document conversion failed: '' @ m))
      | Inr doc \<Rightarrow> Inr doc)"

definition hybrid_chunk_document :: "'doc services \<Rightarrow> 'doc \<Rightarrow> int \<Rightarrow> exn + chunk list" where
  "hybrid_chunk_document sv doc max_tokens =
     (case chunker sv doc max_tokens of
        Inl m \<Rightarrow> Inl (HTTPException 500 (''Text chunking failed: '' @ m))
      | Inr chunk_iter \<Rightarrow>
          Inr (map (\<lambda>c. \<lparr>ck_text = dl_text c,
                             ck_meta = [(''doc_items'', dl_doc_items c),
                                        (''headings'',
                                         case dl_headings c of None \<Rightarrow> [] | Some h \<Rightarrow> h)]\<rparr>)
                 chunk_iter))"

definition generate_embeddings :: "'doc services \<Rightarrow> chunk list \<Rightarrow> exn + embedding_data list" where
  "generate_embeddings sv chunks =
     (let chunk_texts = map ck_text chunks
      in case embed_documents sv chunk_texts of
           Inl m \<Rightarrow> Inl (HTTPException 500 (''Embedding generation failed: '' @ m))
         | Inr embedding_vectors \<Rightarrow>
             Inr (map (\<lambda>(idx, c, v).
                         \<lparr>ed_chunk_id = int idx, ed_text = ck_text c, ed_metadata = ck_meta c,
                          ed_embedding = v, ed_embedding_dimension = int (length v)\<rparr>)
                    (enumerate 0 (zip chunks embedding_vectors))))"

text \<open>\<open>os.unlink\<close> on the set of existing paths.\<close>

definition os_unlink :: "string \<Rightarrow> string set \<Rightarrow> exn + string set" where
  "os_unlink path existing =
     (if path \<in> existing then Inr (existing - {path}) else Inl (FileNotFoundError path))"

text \<open>
  The three assignments to \<open>jobs_storage[job_id]\<close>; the first raises \<open>KeyError\<close> when the job
  is not in the dictionary.
\<close>

definition job_completed ::
  "timestamp \<Rightarrow> string \<Rightarrow> DocumentProcessingResponse \<Rightarrow> (string \<rightharpoonup> job)
     \<Rightarrow> exn + (string \<rightharpoonup> job)" where
  "job_completed now jid res js =
     (case js jid of
        None \<Rightarrow> Inl (KeyError jid)
      | Some j \<Rightarrow>
          Inr (js(jid \<mapsto> j\<lparr>job_status := ''completed'', job_completed_at := Some now,
                              job_result := Some res\<rparr>)))"

definition job_failed ::
  "timestamp \<Rightarrow> string \<Rightarrow> string \<Rightarrow> (string \<rightharpoonup> job) \<Rightarrow> exn + (string \<rightharpoonup> job)" where
  "job_failed now jid msg js =
     (case js jid of
        None \<Rightarrow> Inl (KeyError jid)
      | Some j \<Rightarrow>
          Inr (js(jid \<mapsto> j\<lparr>job_status := ''failed'', job_completed_at := Some now,
                              job_error := Some msg\<rparr>)))"

definition chunks_data_of :: "embedding_data list \<Rightarrow> chunk_data list" where
  "chunks_data_of embeddings_data =
     map (\<lambda>data. \<lparr>cd_chunk_index = ed_chunk_id data, cd_text = ed_text data,
                    cd_embedding = Some (ed_embedding data),
                    cd_chunk_metadata = Some (ed_metadata data)\<rparr>) embeddings_data"

definition preview :: "nat \<Rightarrow> string \<Rightarrow> string" where
  "preview n t = (if n < length t then take n t @ ''...'' else t)"

definition processing_response ::
  "string \<Rightarrow> int \<Rightarrow> string \<Rightarrow> chunk list \<Rightarrow> embedding_data list
     \<Rightarrow> DocumentProcessingResponse" where
  "processing_response fname csize markdown chunks embeddings_data =
     \<lparr>r_status = ''success'', r_filename = fname,
      r_markdown_length = int (length markdown),
      r_num_chunks = int (length chunks),
      r_max_tokens_per_chunk = csize,
      r_embedding_model = EMBEDDING_MODEL,
      r_embedding_dimension =
        (case embeddings_data of
           [] \<Rightarrow> int EMBEDDING_DIMENSION
         | data # _ \<Rightarrow> ed_embedding_dimension data),
      r_chunking_method = ''HybridChunker'',
      r_tokenizer = ''sentence-transformers/all-MiniLM-L6-v2'',
      r_markdown_preview = preview 500 markdown,
      r_chunks_preview =
        map (\<lambda>c. \<lparr>cp_text = preview 200 (ck_text c), cp_metadata = ck_meta c\<rparr>) (take 2 chunks),
      r_embeddings = embeddings_data\<rparr>"

text \<open>What the task works on: its session, the file system and the job dictionary.\<close>

record task_state =
  db :: session
  fs :: "string set"
  jobs :: "string \<rightharpoonup> job"

text \<open>
  The body of the \<open>try\<close>: the exception that leaves it, if any, and the state at that point.
\<close>

definition try_block ::
  "'doc services \<Rightarrow> timestamp \<Rightarrow> string \<Rightarrow> int \<Rightarrow> string \<Rightarrow> string \<Rightarrow> int \<Rightarrow> task_state
     \<Rightarrow> exn option \<times> task_state" where
  "try_block sv now jid did tmp_file_path fname csize st =
     (case convert_document sv tmp_file_path of
        Inl e \<Rightarrow> (Some e, st)
      | Inr doc \<Rightarrow>
     (case export_to_markdown sv doc of
        Inl m \<Rightarrow> (Some (ExternalError m), st)
      | Inr markdown \<Rightarrow>
     (case hybrid_chunk_document sv doc csize of
        Inl e \<Rightarrow> (Some e, st)
      | Inr chunks \<Rightarrow>
     (case generate_embeddings sv chunks of
        Inl e \<Rightarrow> (Some e, st)
      | Inr embeddings_data \<Rightarrow>
     (case update_document_content (db st) now did markdown
             (int (length markdown)) (int (length chunks)) of
        (Inl e, s1) \<Rightarrow> (Some e, st\<lparr>db := s1\<rparr>)
      | (Inr _, s1) \<Rightarrow>
     (case create_chunks_batch s1 now did (chunks_data_of embeddings_data) of
        (Inl e, s2) \<Rightarrow> (Some e, st\<lparr>db := s2\<rparr>)
      | (Inr _, s2) \<Rightarrow>
     (case update_document_status s2 now did COMPLETED None of
        (Inl e, s3) \<Rightarrow> (Some e, st\<lparr>db := s3\<rparr>)
      | (Inr _, s3) \<Rightarrow>
     (case os_unlink tmp_file_path (fs st) of
        Inl e \<Rightarrow> (Some e, st\<lparr>db := s3\<rparr>)
      | Inr fs1 \<Rightarrow>
     (case job_completed now jid
             (processing_response fname csize markdown chunks embeddings_data)
             (jobs st) of
        Inl e \<Rightarrow> (Some e, st\<lparr>db := s3, fs := fs1\<rparr>)
      | Inr js \<Rightarrow> (None, st\<lparr>db := s3, fs := fs1, jobs := js\<rparr>))))))))))"

text \<open>
  The \<open>except Exception as e\<close> block. An exception raised by the status update leaves the
  block at once; the one raised by \<open>os.unlink\<close> is swallowed.
\<close>

definition except_block ::
  "exn \<Rightarrow> timestamp \<Rightarrow> string \<Rightarrow> int \<Rightarrow> string \<Rightarrow> task_state \<Rightarrow> exn option \<times> task_state" where
  "except_block e now jid did tmp_file_path st =
     (case update_document_status (db st) now did FAILED (Some (str_exn e)) of
        (Inl e', s1) \<Rightarrow> (Some e', st\<lparr>db := s1\<rparr>)
      | (Inr _, s1) \<Rightarrow>
          (let fs1 = (case os_unlink tmp_file_path (fs st) of Inl _ \<Rightarrow> fs st | Inr f \<Rightarrow> f)
           in case job_failed now jid (str_exn e) (jobs st) of
                Inl e' \<Rightarrow> (Some e', st\<lparr>db := s1, fs := fs1\<rparr>)
              | Inr js \<Rightarrow> (None, st\<lparr>db := s1, fs := fs1, jobs := js\<rparr>)))"

text \<open>
  The state outside the task: the database server, the files and the job dictionary. The task
  opens a session, runs the \<open>try\<close> and, on an exception, the handler, and closes the session
  in the \<open>finally\<close>. Its value is the exception that escapes it, if any.
\<close>

record world =
  pg :: pg_server
  files :: "string set"
  jobs_storage :: "string \<rightharpoonup> job"

definition process_document_task ::
  "'doc services \<Rightarrow> timestamp \<Rightarrow> string \<Rightarrow> int \<Rightarrow> string \<Rightarrow> string \<Rightarrow> int \<Rightarrow> world
     \<Rightarrow> exn option \<times> world" where
  "process_document_task sv now jid did tmp_file_path fname csize w =
     (let st0 = \<lparr>db = SessionLocal (pg w), fs = files w, jobs = jobs_storage w\<rparr>;
          (r, st1) = try_block sv now jid did tmp_file_path fname csize st0;
          (r', st2) = (case r of
                         None \<Rightarrow> (None, st1)
                       | Some e \<Rightarrow> except_block e now jid did tmp_file_path st1)
      in (r', \<lparr>pg = close (db st2), files = fs st2, jobs_storage = jobs st2\<rparr>))"

text \<open>Reading the persisted state, as a new session would.\<close>

definition persisted_document :: "world \<Rightarrow> int \<Rightarrow> document option" where
  "persisted_document w did = find (\<lambda>d. doc_id d = did) (documents (srv_tables (pg w)))"

definition persisted_chunks :: "world \<Rightarrow> int \<Rightarrow> document_chunk list" where
  "persisted_chunks w did =
     filter (\<lambda>c. document_id c = did) (document_chunks (srv_tables (pg w)))"

section \<open>Auxiliary notions and example data\<close>

text \<open>A saved row carries the attributes of the object it was inserted from.\<close>

definition same_fields :: "document_chunk \<Rightarrow> chunk_object \<Rightarrow> bool" where
  "same_fields row obj =
     (document_id row = co_document_id obj \<and> chunk_index row = co_chunk_index obj
      \<and> chunk_text row = co_text obj \<and> text_length row = co_text_length obj
      \<and> embedding row = co_embedding obj \<and> chunk_metadata row = co_chunk_metadata obj)"

text \<open>
  A session that has no uncommitted work: what every repository method leaves behind when it
  returns normally.
\<close>

definition clean :: "session \<Rightarrow> bool" where
  "clean s = (\<not> inactive s \<and> working s = srv_tables (server s))"

text \<open>
  The concrete states on which the theorems below are exercised. The database starts empty
  with both sequences at 1; \<open>session_one\<close> holds the document that an upload of \<open>a.pdf\<close>
  creates, with id 1.
\<close>

definition empty_server :: pg_server where
  "empty_server =
     \<lparr>srv_tables = \<lparr>documents = [], document_chunks = []\<rparr>,
      document_id_seq = 1, chunk_id_seq = 1\<rparr>"

definition session_one :: session where
  "session_one =
     snd (create_document (SessionLocal empty_server) 1 ''a.pdf'' ''.pdf'' 100 512 None)"

text \<open>A vector of the declared dimension whose first component is \<open>x\<close>.\<close>

definition axis_vector :: "real \<Rightarrow> vector" where
  "axis_vector x = x # replicate 1535 0"

text \<open>A stand-in for the distance operator: the gap between the first components.\<close>

definition first_gap :: "vector \<Rightarrow> vector \<Rightarrow> real" where
  "first_gap v w =
     (case v of [] \<Rightarrow> 0 | a # _ \<Rightarrow> (case w of [] \<Rightarrow> 0 | b # _ \<Rightarrow> \<bar>a - b\<bar>))"

definition embedded_chunk :: "int \<Rightarrow> string \<Rightarrow> vector \<Rightarrow> chunk_data" where
  "embedded_chunk i t v =
     \<lparr>cd_chunk_index = i, cd_text = t, cd_embedding = Some v, cd_chunk_metadata = None\<rparr>"

definition plain_chunk :: "int \<Rightarrow> chunk_data" where
  "plain_chunk i =
     \<lparr>cd_chunk_index = i, cd_text = ''text'', cd_embedding = None, cd_chunk_metadata = None\<rparr>"

text \<open>A batch whose second item has an embedding of three components.\<close>

definition mixed_batch :: "chunk_data list" where
  "mixed_batch = [embedded_chunk 0 ''alpha'' (axis_vector 3), embedded_chunk 1 ''beta'' [1, 2, 3]]"

definition good_batch :: "chunk_data list" where
  "good_batch =
     [embedded_chunk 0 ''alpha'' (axis_vector 3), embedded_chunk 1 ''beta'' (axis_vector 1),
      plain_chunk 2]"

definition session_chunks :: session where
  "session_chunks = snd (create_chunks_batch session_one 2 1 good_batch)"

text \<open>
  A second document, with id 2, whose only chunk lies farther from the origin than the
  embedded chunks of document 1.
\<close>

definition session_two :: session where
  "session_two =
     snd (create_chunks_batch
            (snd (create_document session_chunks 3 ''b.pdf'' ''.pdf'' 200 512 None))
            4 2 [embedded_chunk 0 ''delta'' (axis_vector 7)])"

text \<open>Twelve chunks of document 1, each with an embedding; chunk \<open>i\<close> has first component \<open>i\<close>.\<close>

definition numbered_chunk :: "nat \<Rightarrow> chunk_data" where
  "numbered_chunk i = embedded_chunk (int i) ''text'' (axis_vector (real i))"

definition twelve_batch :: "chunk_data list" where
  "twelve_batch =
     [numbered_chunk 0, numbered_chunk 1, numbered_chunk 2, numbered_chunk 3,
      numbered_chunk 4, numbered_chunk 5, numbered_chunk 6, numbered_chunk 7,
      numbered_chunk 8, numbered_chunk 9, numbered_chunk 10, numbered_chunk 11]"

definition session_twelve :: session where
  "session_twelve = snd (create_chunks_batch session_one 2 1 twelve_batch)"

text \<open>The session that sees, of the chunk table, only the chunks of document \<open>D\<close>.\<close>

definition chunks_of_document :: "int \<Rightarrow> session \<Rightarrow> session" where
  "chunks_of_document D s =
     s\<lparr>working := (working s)\<lparr>document_chunks :=
          filter (\<lambda>c. document_id c = D) (document_chunks (working s))\<rparr>\<rparr>"

text \<open>
  A run of the pipeline on the uploaded document: the converter, the export and the chunker
  succeed, with two chunks; the embedder is the parameter. \<open>world_one\<close> is the state after
  the upload of \<open>a.pdf\<close>: the document row, the temporary file and the job entry.
\<close>

definition example_chunks :: "dl_chunk list" where
  "example_chunks =
     [\<lparr>dl_text = ''alpha'', dl_doc_items = [''#/texts/0''], dl_headings = Some [''Title'']\<rparr>,
      \<lparr>dl_text = ''beta'', dl_doc_items = [''#/texts/1''], dl_headings = None\<rparr>]"

definition example_services :: "(string list \<Rightarrow> string + vector list) \<Rightarrow> string services" where
  "example_services embedder =
     \<lparr>converter = (\<lambda>path. Inr ''docling document''),
      export_to_markdown = (\<lambda>doc. Inr ''# Title''),
      chunker = (\<lambda>doc max_tokens. Inr example_chunks),
      embed_documents = embedder\<rparr>"

definition good_embedder :: "string list \<Rightarrow> string + vector list" where
  "good_embedder texts = Inr (map (\<lambda>t. axis_vector 1) texts)"

definition failing_embedder :: "string list \<Rightarrow> string + vector list" where
  "failing_embedder texts = Inl ''rate limit exceeded''"

text \<open>An embedder whose model produces vectors of three components.\<close>

definition short_embedder :: "string list \<Rightarrow> string + vector list" where
  "short_embedder texts = Inr (map (\<lambda>t. [1, 2, 3]) texts)"

definition world_one :: world where
  "world_one =
     \<lparr>pg = close session_one, files = {''/tmp/upload.pdf''},
      jobs_storage = [''job-1'' \<mapsto> new_job 1 ''job-1'' 1 ''a.pdf'']\<rparr>"

definition good_run :: "exn option \<times> world" where
  "good_run =
     process_document_task (example_services good_embedder) 5 ''job-1'' 1
       ''/tmp/upload.pdf'' ''a.pdf'' 512 world_one"

definition short_run :: "exn option \<times> world" where
  "short_run =
     process_document_task (example_services short_embedder) 5 ''job-1'' 1
       ''/tmp/upload.pdf'' ''a.pdf'' 512 world_one"

section \<open>Facts about the repository\<close>

subsection \<open>Looking up and rewriting a document row\<close>

lemma find_filter_None:
  "find (\<lambda>d. doc_id d = did) (filter (\<lambda>d. doc_id d \<noteq> did) ds) = None"
  by (induction ds) auto

lemma find_map_replace:
  "find (\<lambda>d. doc_id d = did) ds = Some d \<Longrightarrow> doc_id d' = did \<Longrightarrow>
   find (\<lambda>d. doc_id d = did) (map (\<lambda>x. if doc_id x = did then d' else x) ds) = Some d'"
  by (induction ds) (auto split: if_splits)

lemma find_Some_doc_id: "find (\<lambda>d. doc_id d = did) ds = Some d \<Longrightarrow> doc_id d = did"
  by (induction ds) (auto split: if_splits)

lemma stamp_fields:
  "doc_id (stamp now old new) = doc_id new"
  "filename (stamp now old new) = filename new"
  "file_extension (stamp now old new) = file_extension new"
  "file_size (stamp now old new) = file_size new"
  "status (stamp now old new) = status new"
  "error_message (stamp now old new) = error_message new"
  "markdown_content (stamp now old new) = markdown_content new"
  "markdown_length (stamp now old new) = markdown_length new"
  "num_chunks (stamp now old new) = num_chunks new"
  "chunk_size (stamp now old new) = chunk_size new"
  "embedding_model (stamp now old new) = embedding_model new"
  "embedding_dimension (stamp now old new) = embedding_dimension new"
  "created_at (stamp now old new) = created_at new"
  "completed_at (stamp now old new) = completed_at new"
  "doc_metadata (stamp now old new) = doc_metadata new"
  by (auto simp: stamp_def)

lemma find_write_document:
  assumes "find (\<lambda>d. doc_id d = did) (documents tb) = Some old"
    and "doc_id new = doc_id old"
  shows "find (\<lambda>d. doc_id d = did) (documents (write_document now old new tb))
           = Some (stamp now old new)"
proof (cases "new = old")
  case True
  then show ?thesis using assms by (simp add: write_document_def stamp_def)
next
  case False
  have i: "doc_id old = did" using assms(1) by (rule find_Some_doc_id)
  have "doc_id (stamp now old new) = did" using assms(2) i by (simp add: stamp_def)
  from find_map_replace[OF assms(1) this] False i show ?thesis
    by (simp add: write_document_def)
qed

lemma chunks_write_document:
  "document_chunks (write_document now old new tb) = document_chunks tb"
  by (simp add: write_document_def)

lemma get_document_Some:
  "get_document s did = Inr (Some d) \<Longrightarrow>
     \<not> inactive s \<and> find (\<lambda>d. doc_id d = did) (documents (working s)) = Some d"
  by (auto simp: get_document_def split: if_splits)

subsection \<open>The concrete states, evaluated\<close>

lemma session_one_eq:
  "session_one =
     \<lparr>server =
        \<lparr>srv_tables =
           \<lparr>documents =
              [\<lparr>doc_id = 1, filename = ''a.pdf'', file_extension = ''.pdf'', file_size = 100,
                 status = PROCESSING, error_message = None, markdown_content = None,
                 markdown_length = None, num_chunks = 0, chunk_size = 512,
                 embedding_model = ''text-embedding-3-small'', embedding_dimension = 1536,
                 created_at = 1, updated_at = None, completed_at = None, doc_metadata = []\<rparr>],
            document_chunks = []\<rparr>,
         document_id_seq = 2, chunk_id_seq = 1\<rparr>,
      working =
        \<lparr>documents =
           [\<lparr>doc_id = 1, filename = ''a.pdf'', file_extension = ''.pdf'', file_size = 100,
              status = PROCESSING, error_message = None, markdown_content = None,
              markdown_length = None, num_chunks = 0, chunk_size = 512,
              embedding_model = ''text-embedding-3-small'', embedding_dimension = 1536,
              created_at = 1, updated_at = None, completed_at = None, doc_metadata = []\<rparr>],
         document_chunks = []\<rparr>,
      inactive = False\<rparr>"
  by (simp add: empty_server_def session_one_def create_document_def SessionLocal_def
      commit_def Let_def EMBEDDING_DIMENSION_def EMBEDDING_MODEL_def)

lemmas batch_defs =
  create_chunks_batch_def bulk_save_objects_def insert_chunk_def DocumentChunk_def
  vector_ok_def EMBEDDING_DIMENSION_def Let_def flush_failed_def commit_def
  embedded_chunk_def plain_chunk_def axis_vector_def

lemmas search_defs =
  search_similar_chunks_def candidates_def order_by_distance_def first_gap_def

subsection \<open>Updating the status\<close>

text \<open>
  Claim C7, as amended. For an existing document, \<open>update_document_status\<close> sets the given
  status, stamps \<open>completed_at\<close> exactly when the new status is \<open>COMPLETED\<close> (otherwise
  the old value stays), and stores the given error message whatever the status is (so an
  omitted message clears the stored one). The new row is committed.
\<close>

theorem update_document_status_effect:
  assumes "get_document s did = Inr (Some d)"
  shows "\<exists>d' s'. update_document_status s now did st err = (Inr (Some d'), s')
          \<and> get_document s' did = Inr (Some d')
          \<and> srv_tables (server s') = working s'
          \<and> status d' = st
          \<and> error_message d' = err
          \<and> completed_at d' = (if st = COMPLETED then Some now else completed_at d)"
proof -
  from assms have act: "\<not> inactive s"
    and f: "find (\<lambda>d. doc_id d = did) (documents (working s)) = Some d"
    by (auto simp: get_document_def split: if_splits)
  define d2 where "d2 =
    (if st = COMPLETED then d\<lparr>status := st, error_message := err, completed_at := Some now\<rparr>
     else d\<lparr>status := st, error_message := err\<rparr>)"
  have id2: "doc_id d2 = doc_id d" by (simp add: d2_def)
  have "find (\<lambda>d. doc_id d = did) (documents (write_document now d d2 (working s)))
          = Some (stamp now d d2)"
    using f id2 by (rule find_write_document)
  moreover have "status (stamp now d d2) = st \<and> error_message (stamp now d d2) = err
     \<and> completed_at (stamp now d d2) = (if st = COMPLETED then Some now else completed_at d)"
    by (simp add: stamp_fields d2_def)
  moreover have "update_document_status s now did st err =
      (Inr (Some (stamp now d d2)),
       s\<lparr>working := write_document now d d2 (working s),
         server := (server s)\<lparr>srv_tables := write_document now d d2 (working s)\<rparr>\<rparr>)"
    using assms act by (simp add: update_document_status_def Let_def commit_def d2_def)
  ultimately show ?thesis using act
    by (simp add: get_document_def)
qed

text \<open>
  The theorem at the uploaded document: marking it failed with the message \<open>boom\<close>.
\<close>

theorem update_document_status_effect_witness:
  "\<exists>d. get_document session_one 1 = Inr (Some d)
     \<and> (\<exists>d' s'. update_document_status session_one 2 1 FAILED (Some ''boom'')
                   = (Inr (Some d'), s')
           \<and> get_document s' 1 = Inr (Some d')
           \<and> status d' = FAILED
           \<and> error_message d' = Some ''boom''
           \<and> completed_at d' = None)"
proof -
  obtain d where g: "get_document session_one 1 = Inr (Some d)" and c: "completed_at d = None"
    by (simp add: session_one_eq get_document_def)
  from update_document_status_effect[OF g, of 2 FAILED "Some ''boom''"] g c
  show ?thesis by auto
qed

text \<open>
  Claim C7 as stated fails: a call with status \<open>COMPLETED\<close> and an error message stores the
  message on the completed document.
\<close>

theorem update_document_status_counterexample:
  "map_sum id (map_option status)
     (get_document
        (snd (update_document_status session_one 2 1 COMPLETED (Some ''boom''))) 1)
     = Inr (Some COMPLETED)
   \<and> map_sum id (map_option error_message)
       (get_document
          (snd (update_document_status session_one 2 1 COMPLETED (Some ''boom''))) 1)
       = Inr (Some (Some ''boom''))"
  by (simp add: session_one_eq update_document_status_def get_document_def Let_def
      write_document_def stamp_def commit_def)

subsection \<open>Deleting a document\<close>

text \<open>
  Claim C8. \<open>delete_document\<close> returns \<open>False\<close> and changes nothing when no document has
  the id. Otherwise it returns \<open>True\<close>, and afterwards \<open>get_document\<close> finds nothing and
  \<open>get_chunks_by_document\<close> returns the empty list, in the same session and in any session
  opened later.
\<close>

theorem delete_document_cascades:
  "(get_document s did = Inr None \<longrightarrow> delete_document s did = (Inr False, s))
   \<and> (\<forall>d. get_document s did = Inr (Some d) \<longrightarrow>
         (\<exists>s'. delete_document s did = (Inr True, s')
            \<and> get_document s' did = Inr None
            \<and> get_chunks_by_document s' did 0 100 = Inr []
            \<and> (\<forall>skip limit. 0 \<le> skip \<longrightarrow> 0 \<le> limit \<longrightarrow>
                  get_chunks_by_document s' did skip limit = Inr [])
            \<and> get_document (SessionLocal (close s')) did = Inr None
            \<and> get_chunks_by_document (SessionLocal (close s')) did 0 100 = Inr []))"
proof (intro conjI allI impI)
  assume "get_document s did = Inr None"
  then show "delete_document s did = (Inr False, s)"
    by (simp add: delete_document_def)
next
  fix d
  assume g: "get_document s did = Inr (Some d)"
  note a = get_document_Some[OF g]
  have i: "doc_id d = did" using a find_Some_doc_id by blast
  let ?W = "delete_cascade did (working s)"
  let ?s' = "s\<lparr>working := ?W, server := (server s)\<lparr>srv_tables := ?W\<rparr>\<rparr>"
  have run: "delete_document s did = (Inr True, ?s')"
    using g a i by (simp add: delete_document_def Let_def commit_def)
  have nodoc: "find (\<lambda>d. doc_id d = did) (documents ?W) = None"
    by (simp add: delete_cascade_def find_filter_None)
  have nochunk: "filter (\<lambda>c. document_id c = did) (document_chunks ?W) = []"
    by (simp add: delete_cascade_def)
  have "get_document ?s' did = Inr None"
    using a nodoc by (simp add: get_document_def)
  moreover have "\<forall>skip limit. 0 \<le> skip \<longrightarrow> 0 \<le> limit \<longrightarrow>
      get_chunks_by_document ?s' did skip limit = Inr []"
    using a nochunk by (simp add: get_chunks_by_document_def)
  moreover have "get_document (SessionLocal (close ?s')) did = Inr None"
    using nodoc by (simp add: get_document_def SessionLocal_def close_def)
  moreover have "get_chunks_by_document (SessionLocal (close ?s')) did 0 100 = Inr []"
    using nochunk by (simp add: get_chunks_by_document_def SessionLocal_def close_def)
  ultimately show "\<exists>s'. delete_document s did = (Inr True, s')
            \<and> get_document s' did = Inr None
            \<and> get_chunks_by_document s' did 0 100 = Inr []
            \<and> (\<forall>skip limit. 0 \<le> skip \<longrightarrow> 0 \<le> limit \<longrightarrow>
                  get_chunks_by_document s' did skip limit = Inr [])
            \<and> get_document (SessionLocal (close s')) did = Inr None
            \<and> get_chunks_by_document (SessionLocal (close s')) did 0 100 = Inr []"
    using run by simp
qed

lemma session_chunks_docs:
  "\<not> inactive session_chunks
   \<and> documents (working session_chunks) = documents (working session_one)
   \<and> map document_id (document_chunks (working session_chunks)) = [1, 1, 1]
   \<and> map chunk_index (document_chunks (working session_chunks)) = [0, 1, 2]
   \<and> map embedding (document_chunks (working session_chunks))
       = [Some (axis_vector 3), Some (axis_vector 1), None]"
  by (simp add: session_chunks_def good_batch_def session_one_eq batch_defs)

text \<open>
  The theorem on the session that holds document 1 with three chunks: deleting the unknown
  id 2 returns \<open>False\<close>, deleting id 1 returns \<open>True\<close> and leaves neither the document nor
  its chunks.
\<close>

theorem delete_document_cascades_witness:
  "get_document session_chunks 2 = Inr None
   \<and> delete_document session_chunks 2 = (Inr False, session_chunks)
   \<and> (\<exists>d. get_document session_chunks 1 = Inr (Some d))
   \<and> get_chunks_by_document session_chunks 1 0 100 \<noteq> Inr []
   \<and> (\<exists>s'. delete_document session_chunks 1 = (Inr True, s')
         \<and> get_document s' 1 = Inr None
         \<and> get_chunks_by_document s' 1 0 100 = Inr [])"
proof -
  have a: "get_document session_chunks 2 = Inr None"
    using session_chunks_docs by (simp add: get_document_def session_one_eq)
  obtain d where b: "get_document session_chunks 1 = Inr (Some d)"
    using session_chunks_docs by (simp add: get_document_def session_one_eq)
  have c: "get_chunks_by_document session_chunks 1 0 100 \<noteq> Inr []"
    by (simp add: get_chunks_by_document_def session_chunks_def good_batch_def
        session_one_eq batch_defs)
  from delete_document_cascades[of session_chunks 2] a
  have "delete_document session_chunks 2 = (Inr False, session_chunks)" by blast
  moreover from delete_document_cascades[of session_chunks 1] b
  have "\<exists>s'. delete_document session_chunks 1 = (Inr True, s')
         \<and> get_document s' 1 = Inr None
         \<and> get_chunks_by_document s' 1 0 100 = Inr []" by blast
  ultimately show ?thesis using a b c by blast
qed

subsection \<open>The update route\<close>

text \<open>
  Claim C10, as amended. For an existing document, whatever filename the request carries,
  the update changes at most \<open>filename\<close> and \<open>updated_at\<close> (which the database stamps when
  the row is rewritten) of the persisted document: every other field and the chunk table are
  unchanged, and without a filename nothing changes at all. The session is the request's
  own, without pending work. A filename of at most 255 characters is stored.
\<close>

theorem update_document_frame:
  assumes "clean s"
    and "get_document s did = Inr (Some d)"
    and "update_document s now did fname = (r, s')"
  shows "\<exists>d'. get_document (SessionLocal (close s')) did = Inr (Some d')
          \<and> d' = d\<lparr>filename := filename d', updated_at := updated_at d'\<rparr>
          \<and> document_chunks (srv_tables (server s')) = document_chunks (srv_tables (server s))
          \<and> (fname = None \<longrightarrow> s' = s \<and> d' = d)
          \<and> (\<forall>f. fname = Some f \<and> length f \<le> 255 \<longrightarrow>
                 (\<exists>resp. r = Inr resp) \<and> get_document s' did = Inr (Some d')
                 \<and> filename d' = f)"
proof -
  note a = get_document_Some[OF assms(2)]
  have cl: "working s = srv_tables (server s)" using assms(1) by (simp add: clean_def)
  have same: "d = d\<lparr>filename := filename d, updated_at := updated_at d\<rparr>" by simp
  show ?thesis
  proof (cases fname)
    case None
    then have "s' = s" using assms(2,3) by (simp add: update_document_def)
    then show ?thesis using None a cl same
      by (simp add: get_document_def SessionLocal_def close_def)
  next
    case (Some f)
    let ?d1 = "d\<lparr>filename := f\<rparr>"
    show ?thesis
    proof (cases "?d1 \<noteq> d \<and> 255 < length f")
      case True
      then have "s' = flush_failed s"
        using assms(2,3) Some by (simp add: update_document_def Let_def)
      then show ?thesis using Some True a cl same
        by (simp add: get_document_def SessionLocal_def close_def flush_failed_def)
    next
      case False
      let ?W = "write_document now d ?d1 (working s)"
      have run: "r = Inr \<lparr>ur_message = ''Document updated successfully'', ur_document_id = did,
             ur_updated_fields = [(''filename'', f)]\<rparr>
          \<and> s' = s\<lparr>working := ?W, server := (server s)\<lparr>srv_tables := ?W\<rparr>\<rparr>"
        using assms(2,3) a Some False
        by (auto simp: update_document_def Let_def commit_def)
      have fd: "find (\<lambda>d. doc_id d = did) (documents ?W) = Some (stamp now d ?d1)"
        using a by (intro find_write_document) simp_all
      have fr: "stamp now d ?d1 =
          d\<lparr>filename := filename (stamp now d ?d1), updated_at := updated_at (stamp now d ?d1)\<rparr>"
        by (auto simp: stamp_def)
      have fn: "filename (stamp now d ?d1) = f" by (simp add: stamp_fields)
      have "get_document (SessionLocal (close s')) did = Inr (Some (stamp now d ?d1))"
        using run fd by (simp add: get_document_def SessionLocal_def close_def)
      moreover have "get_document s' did = Inr (Some (stamp now d ?d1))"
        using run fd a by (simp add: get_document_def)
      moreover have "document_chunks (srv_tables (server s'))
          = document_chunks (srv_tables (server s))"
        using run cl by (simp add: chunks_write_document)
      ultimately show ?thesis using fr fn Some run by auto
    qed
  qed
qed

text \<open>The theorem at the uploaded document, renamed to \<open>b.pdf\<close> at time 9.\<close>

theorem update_document_frame_witness:
  "clean session_one
   \<and> (\<exists>d. get_document session_one 1 = Inr (Some d)
        \<and> (\<exists>d'. get_document
                   (SessionLocal (close (snd (update_document session_one 9 1 (Some ''b.pdf'')))))
                   1 = Inr (Some d')
              \<and> d' = d\<lparr>filename := ''b.pdf'', updated_at := updated_at d'\<rparr>))"
proof -
  have c: "clean session_one" by (simp add: clean_def session_one_eq)
  obtain d where g: "get_document session_one 1 = Inr (Some d)"
    by (simp add: session_one_eq get_document_def)
  have l: "length ''b.pdf'' \<le> 255" by simp
  from update_document_frame[OF c g, of 9 "Some ''b.pdf''"
      "fst (update_document session_one 9 1 (Some ''b.pdf''))"
      "snd (update_document session_one 9 1 (Some ''b.pdf''))"] l
  obtain d' where "get_document
        (SessionLocal (close (snd (update_document session_one 9 1 (Some ''b.pdf''))))) 1
        = Inr (Some d')"
    "d' = d\<lparr>filename := filename d', updated_at := updated_at d'\<rparr>" "filename d' = ''b.pdf''"
    by auto
  then show ?thesis using c g by auto
qed

text \<open>
  Claim C10 as stated fails on the timestamps: renaming the uploaded document at time 9
  changes its \<open>updated_at\<close> from NULL to 9.
\<close>

theorem update_document_counterexample:
  "map_sum id (map_option updated_at) (get_document session_one 1) = Inr (Some None)
   \<and> map_sum id (map_option updated_at)
       (get_document (snd (update_document session_one 9 1 (Some ''b.pdf''))) 1)
       = Inr (Some (Some 9))"
  by (simp add: session_one_eq update_document_def get_document_def Let_def
      write_document_def stamp_def commit_def)

subsection \<open>Inserting a batch of chunks\<close>

lemma insert_chunk_committed:
  "insert_chunk now obj s = (r, s') \<Longrightarrow>
     srv_tables (server s') = srv_tables (server s) \<and> inactive s' = inactive s
     \<and> documents (working s') = documents (working s)"
  by (auto simp: insert_chunk_def Let_def split: if_splits)

lemma insert_chunk_Inr:
  "insert_chunk now obj s = (Inr row, s') \<Longrightarrow>
     document_chunks (working s') = document_chunks (working s) @ [row]
     \<and> same_fields row obj
     \<and> (case co_embedding obj of None \<Rightarrow> True | Some v \<Rightarrow> vector_ok v)
     \<and> find (\<lambda>d. doc_id d = co_document_id obj) (documents (working s)) \<noteq> None"
  by (auto simp: insert_chunk_def same_fields_def Let_def split: if_splits option.splits)

lemma bulk_insert_committed:
  "bulk_insert now objs s = (r, s') \<Longrightarrow>
     srv_tables (server s') = srv_tables (server s) \<and> inactive s' = inactive s
     \<and> documents (working s') = documents (working s)"
proof (induction objs arbitrary: s r s')
  case Nil
  then show ?case by simp
next
  case (Cons obj objs)
  obtain r1 s1 where i: "insert_chunk now obj s = (r1, s1)"
    by (cases "insert_chunk now obj s")
  note c1 = insert_chunk_committed[OF i]
  show ?case
  proof (cases r1)
    case (Inl e)
    then show ?thesis using Cons.prems i c1 by simp
  next
    case (Inr row)
    obtain r2 s2 where b: "bulk_insert now objs s1 = (r2, s2)"
      by (cases "bulk_insert now objs s1")
    from Cons.IH[OF b] c1
    have "srv_tables (server s2) = srv_tables (server s) \<and> inactive s2 = inactive s
       \<and> documents (working s2) = documents (working s)" by simp
    moreover have "s' = s2" using Cons.prems i Inr b by (cases r2) auto
    ultimately show ?thesis by simp
  qed
qed

lemma bulk_insert_Inr:
  "bulk_insert now objs s = (Inr rows, s') \<Longrightarrow>
     document_chunks (working s') = document_chunks (working s) @ rows
     \<and> list_all2 same_fields rows objs
     \<and> (\<forall>obj \<in> set objs. case co_embedding obj of None \<Rightarrow> True | Some v \<Rightarrow> vector_ok v)"
proof (induction objs arbitrary: s rows s')
  case Nil
  then show ?case by simp
next
  case (Cons obj objs)
  obtain r1 s1 where i: "insert_chunk now obj s = (r1, s1)"
    by (cases "insert_chunk now obj s")
  obtain r2 s2 where b: "bulk_insert now objs s1 = (r2, s2)"
    by (cases "bulk_insert now objs s1")
  from Cons.prems i b obtain row rows' where r1: "r1 = Inr row" and r2: "r2 = Inr rows'"
    and rows: "rows = row # rows'" and s': "s' = s2"
    by (cases r1; cases r2) auto
  note a = insert_chunk_Inr[OF i[unfolded r1]]
  note c = Cons.IH[OF b[unfolded r2]]
  show ?case using a c rows s' by simp
qed

lemma same_fields_DocumentChunk:
  "list_all2 same_fields rows (map (DocumentChunk did) cds) \<Longrightarrow>
   list_all2 (\<lambda>row data. document_id row = did \<and> chunk_index row = cd_chunk_index data
        \<and> chunk_text row = cd_text data \<and> text_length row = int (length (cd_text data))
        \<and> embedding row = cd_embedding data
        \<and> chunk_metadata row = (case cd_chunk_metadata data of None \<Rightarrow> [] | Some m \<Rightarrow> m))
      rows cds"
  by (simp add: list_all2_map2 same_fields_def DocumentChunk_def)

text \<open>
  How a call of \<open>create_chunks_batch\<close> on a usable session ends: it raises after rolling back,
  or it returns the rows it has committed.
\<close>

lemma create_chunks_batch_cases:
  assumes "create_chunks_batch s now did chunks_data = (r, s')" and "\<not> inactive s"
  shows "(\<exists>e s1. r = Inl e \<and> s' = flush_failed s1
            \<and> srv_tables (server s1) = srv_tables (server s))
       \<or> (\<exists>rows. r = Inr rows \<and> \<not> inactive s' \<and> srv_tables (server s') = working s'
            \<and> documents (working s') = documents (working s)
            \<and> document_chunks (working s') = document_chunks (working s) @ rows
            \<and> list_all2 same_fields rows (map (DocumentChunk did) chunks_data)
            \<and> (\<forall>data \<in> set chunks_data.
                  case cd_embedding data of None \<Rightarrow> True | Some v \<Rightarrow> vector_ok v))"
proof -
  let ?objs = "map (DocumentChunk did) chunks_data"
  obtain r1 s1 where b: "bulk_insert now ?objs s = (r1, s1)"
    by (cases "bulk_insert now ?objs s")
  note c = bulk_insert_committed[OF b]
  show ?thesis
  proof (cases r1)
    case (Inl e)
    then have "r = Inl e" "s' = flush_failed s1"
      using assms b by (auto simp: create_chunks_batch_def bulk_save_objects_def)
    then show ?thesis using c by blast
  next
    case (Inr rows)
    then have r: "r = Inr rows"
      and s': "s' = s1\<lparr>server := (server s1)\<lparr>srv_tables := working s1\<rparr>\<rparr>"
      using assms b c
      by (auto simp: create_chunks_batch_def bulk_save_objects_def commit_def)
    note i = bulk_insert_Inr[OF b[unfolded Inr]]
    have "\<forall>data \<in> set chunks_data.
        case cd_embedding data of None \<Rightarrow> True | Some v \<Rightarrow> vector_ok v"
      using i by (simp add: DocumentChunk_def)
    then show ?thesis using r s' i c assms(2) by simp
  qed
qed

text \<open>
  Claim C1. Whatever the document id and the batch, \<open>create_chunks_batch\<close> either raises, and
  then the persisted tables are exactly what they were and the session holds no pending row
  of the batch (its transaction is rolled back), or it returns, and then one commit has
  persisted a row for every item of the batch, in order, after the rows that were there.
  A batch that contains an embedding of the wrong length always raises.
\<close>

theorem create_chunks_batch_all_or_nothing:
  assumes "create_chunks_batch s now did chunks_data = (r, s')"
  shows "(case r of
            Inl e \<Rightarrow> srv_tables (server s') = srv_tables (server s)
                   \<and> (if inactive s then s' = s
                       else inactive s' \<and> working s' = srv_tables (server s))
          | Inr rows \<Rightarrow>
              document_chunks (srv_tables (server s')) = document_chunks (working s) @ rows
              \<and> documents (srv_tables (server s')) = documents (working s)
              \<and> list_all2 (\<lambda>row data. document_id row = did
                     \<and> chunk_index row = cd_chunk_index data
                     \<and> chunk_text row = cd_text data
                     \<and> text_length row = int (length (cd_text data))
                     \<and> embedding row = cd_embedding data
                     \<and> chunk_metadata row =
                         (case cd_chunk_metadata data of None \<Rightarrow> [] | Some m \<Rightarrow> m))
                  rows chunks_data)
         \<and> ((\<exists>data \<in> set chunks_data. \<exists>v. cd_embedding data = Some v
                  \<and> length v \<noteq> EMBEDDING_DIMENSION)
               \<longrightarrow> (\<exists>e. r = Inl e))"
proof (cases "inactive s")
  case True
  then have "r = Inl PendingRollbackError" "s' = s"
    using assms by (auto simp: create_chunks_batch_def bulk_save_objects_def)
  then show ?thesis using True by simp
next
  case act: False
  from create_chunks_batch_cases[OF assms act] show ?thesis
  proof (elim disjE exE conjE)
    fix e s1
    assume "r = Inl e" "s' = flush_failed s1" "srv_tables (server s1) = srv_tables (server s)"
    then show ?thesis using act by (simp add: flush_failed_def)
  next
    fix rows
    assume r: "r = Inr rows" and p: "srv_tables (server s') = working s'"
      "documents (working s') = documents (working s)"
      "document_chunks (working s') = document_chunks (working s) @ rows"
      and f: "list_all2 same_fields rows (map (DocumentChunk did) chunks_data)"
      and ok: "\<forall>data \<in> set chunks_data.
                  case cd_embedding data of None \<Rightarrow> True | Some v \<Rightarrow> vector_ok v"
    have "\<not> (\<exists>data \<in> set chunks_data. \<exists>v. cd_embedding data = Some v
                  \<and> length v \<noteq> EMBEDDING_DIMENSION)"
      using ok by (auto simp: vector_ok_def split: option.splits)
    then show ?thesis using r p same_fields_DocumentChunk[OF f] by simp
  qed
qed

text \<open>
  The theorem on a batch whose first item is valid and whose second item has an embedding of
  three components, for the uploaded document: the call raises and nothing is persisted.
\<close>

theorem create_chunks_batch_all_or_nothing_witness:
  "(\<exists>data \<in> set mixed_batch. \<exists>v. cd_embedding data = Some v \<and> length v \<noteq> EMBEDDING_DIMENSION)
   \<and> (\<exists>e. fst (create_chunks_batch session_one 2 1 mixed_batch) = Inl e)
   \<and> srv_tables (server (snd (create_chunks_batch session_one 2 1 mixed_batch)))
       = srv_tables (server session_one)
   \<and> working (snd (create_chunks_batch session_one 2 1 mixed_batch))
       = srv_tables (server session_one)"
proof -
  have bad: "\<exists>data \<in> set mixed_batch. \<exists>v. cd_embedding data = Some v
      \<and> length v \<noteq> EMBEDDING_DIMENSION"
    by (simp add: mixed_batch_def embedded_chunk_def EMBEDDING_DIMENSION_def)
  have act: "\<not> inactive session_one" by (simp add: session_one_eq)
  from create_chunks_batch_all_or_nothing[of session_one 2 1 mixed_batch
      "fst (create_chunks_batch session_one 2 1 mixed_batch)"
      "snd (create_chunks_batch session_one 2 1 mixed_batch)"] bad act
  show ?thesis by auto
qed


subsection \<open>Similarity search\<close>

lemma distance_le_total: "distance_le a b \<or> distance_le b a"
  by (cases a; cases b) auto

lemma distance_le_trans: "distance_le a b \<Longrightarrow> distance_le b c \<Longrightarrow> distance_le a c"
  by (cases a; cases b; cases c) auto

lemma set_insert_by_distance: "set (insert_by_distance r xs) = insert r (set xs)"
  by (induction xs) auto

lemma length_insert_by_distance: "length (insert_by_distance r xs) = Suc (length xs)"
  by (induction xs) auto

lemma sorted_insert_by_distance:
  "sorted_wrt distance_le (map snd xs) \<Longrightarrow>
   sorted_wrt distance_le (map snd (insert_by_distance r xs))"
proof (induction xs)
  case Nil
  then show ?case by simp
next
  case (Cons x xs)
  show ?case
  proof (cases "distance_le (snd r) (snd x)")
    case True
    then show ?thesis using Cons.prems by (auto intro: distance_le_trans)
  next
    case False
    then have "distance_le (snd x) (snd r)" using distance_le_total by blast
    then show ?thesis using False Cons by (auto simp: set_insert_by_distance)
  qed
qed

lemma order_by_distance_props:
  "sorted_wrt distance_le (map snd (order_by_distance rs))
   \<and> set (order_by_distance rs) = set rs \<and> length (order_by_distance rs) = length rs"
  unfolding order_by_distance_def
  by (induction rs)
    (auto simp: sorted_insert_by_distance set_insert_by_distance length_insert_by_distance)

lemma sorted_wrt_take_map: "sorted_wrt P (map f xs) \<Longrightarrow> sorted_wrt P (map f (take n xs))"
  by (simp add: take_map[symmetric])

lemma search_results:
  assumes "search_similar_chunks cosine_distance s q k did = Inr rs"
  shows "sorted_wrt distance_le (map snd rs)
         \<and> int (length rs) \<le> k
         \<and> length rs \<le> length (candidates s did)
         \<and> (\<forall>(c, d) \<in> set rs. c \<in> set (candidates s did)
               \<and> d = map_option (\<lambda>v. cosine_distance v q) (embedding c))"
proof -
  let ?rows = "map (\<lambda>c. (c, map_option (\<lambda>v. cosine_distance v q) (embedding c)))
                 (candidates s did)"
  from assms have k: "0 \<le> k" and rs: "rs = take (nat k) (order_by_distance ?rows)"
    by (auto simp: search_similar_chunks_def split: if_splits)
  note p = order_by_distance_props[of ?rows]
  have "sorted_wrt distance_le (map snd rs)" using p rs by (simp add: sorted_wrt_take_map)
  moreover have "int (length rs) \<le> k" using k rs by simp
  moreover have "length rs \<le> length (candidates s did)" using p rs by simp
  moreover have "set rs \<subseteq> set ?rows" using p rs set_take_subset by metis
  ultimately show ?thesis by auto
qed

lemma search_returns:
  "\<not> inactive s \<Longrightarrow> length q = EMBEDDING_DIMENSION \<Longrightarrow> 0 \<le> k \<Longrightarrow>
   \<exists>rs. search_similar_chunks cosine_distance s q k did = Inr rs"
  by (simp add: search_similar_chunks_def vector_ok_def)

text \<open>
  Claim C4. Whenever \<open>search_similar_chunks\<close> returns, for any query vector, any \<open>k\<close> and any
  scope, the pairs are in non-decreasing order of distance (a NULL distance, of a chunk
  without embedding, comes last), each distance is the one of its chunk to the query, there
  are at most \<open>k\<close> pairs and at most as many as there are candidate chunks, and every
  returned chunk is a candidate. On a usable session it returns for every query of the
  declared dimension and every \<open>k \<ge> 0\<close>.
\<close>

theorem search_similar_chunks_ordered:
  "(\<forall>rs. search_similar_chunks cosine_distance s q k did = Inr rs \<longrightarrow>
       sorted_wrt distance_le (map snd rs)
       \<and> int (length rs) \<le> k
       \<and> length rs \<le> length (candidates s did)
       \<and> (\<forall>(c, d) \<in> set rs. c \<in> set (candidates s did)
             \<and> d = map_option (\<lambda>v. cosine_distance v q) (embedding c)))
   \<and> (\<not> inactive s \<and> length q = EMBEDDING_DIMENSION \<and> 0 \<le> k \<longrightarrow>
         (\<exists>rs. search_similar_chunks cosine_distance s q k did = Inr rs))"
  using search_results[of cosine_distance s q k did]
    search_returns[of s q k cosine_distance did]
  by blast

lemma search_chunks_example:
  "map_sum id (map (\<lambda>(c, d). (chunk_index c, d)))
     (search_similar_chunks first_gap session_chunks (axis_vector 0) 2 None)
     = Inr [(1, Some 1), (0, Some 3)]"
  by (simp add: session_chunks_def good_batch_def session_one_eq batch_defs search_defs)

text \<open>
  The theorem on the session with three chunks, whose first components are 3, 1 and NULL,
  for the query with first component 0 and \<open>k = 2\<close>: the chunks 1 and 0 come back, at
  distances 1 and 3.
\<close>

theorem search_similar_chunks_ordered_witness:
  "\<not> inactive session_chunks \<and> length (axis_vector 0) = EMBEDDING_DIMENSION \<and> (0::int) \<le> 2
   \<and> (\<exists>rs. search_similar_chunks first_gap session_chunks (axis_vector 0) 2 None = Inr rs
         \<and> map (\<lambda>(c, d). (chunk_index c, d)) rs = [(1, Some 1), (0, Some 3)]
         \<and> sorted_wrt distance_le (map snd rs)
         \<and> int (length rs) \<le> 2
         \<and> length rs \<le> length (candidates session_chunks None))"
proof -
  have a: "\<not> inactive session_chunks" using session_chunks_docs by simp
  have b: "length (axis_vector 0) = EMBEDDING_DIMENSION"
    by (simp add: axis_vector_def EMBEDDING_DIMENSION_def)
  from search_similar_chunks_ordered[of first_gap session_chunks "axis_vector 0" 2 None] a b
  obtain rs where rs: "search_similar_chunks first_gap session_chunks (axis_vector 0) 2 None
      = Inr rs" by auto
  with search_similar_chunks_ordered[of first_gap session_chunks "axis_vector 0" 2 None]
  have p: "sorted_wrt distance_le (map snd rs) \<and> int (length rs) \<le> 2
      \<and> length rs \<le> length (candidates session_chunks None)" by blast
  have "map (\<lambda>(c, d). (chunk_index c, d)) rs = [(1, Some 1), (0, Some 3)]"
    using search_chunks_example rs by simp
  then show ?thesis using a b rs p by simp
qed

lemma search_scope_restricts:
  "D \<noteq> 0 \<Longrightarrow>
     search_similar_chunks cosine_distance s q k (Some D)
       = search_similar_chunks cosine_distance (chunks_of_document D s) q k None"
  by (simp add: search_similar_chunks_def candidates_def chunks_of_document_def)

lemma search_length:
  assumes "search_similar_chunks cosine_distance s q k did = Inr rs"
  shows "length rs = min (nat k) (length (candidates s did))"
proof -
  from assms have "rs = take (nat k) (order_by_distance
      (map (\<lambda>c. (c, map_option (\<lambda>v. cosine_distance v q) (embedding c))) (candidates s did)))"
    by (auto simp: search_similar_chunks_def split: if_splits)
  then show ?thesis by (simp add: order_by_distance_props min.commute)
qed

text \<open>
  Claim C5, as amended. For every document id \<open>D\<close> other than 0, a search called with
  \<open>document_id = D\<close> is the unscoped search over the chunks of document \<open>D\<close> alone: the
  restriction comes before the ranking and the limit. So it returns only chunks whose
  \<open>document_id\<close> is \<open>D\<close>, and as many of them as \<open>k\<close> and the number of chunks of \<open>D\<close>
  allow. (The id 0 is falsy, and the filter is not applied for it.)
\<close>

theorem search_similar_chunks_scoped:
  assumes "D \<noteq> 0"
  shows "search_similar_chunks cosine_distance s q k (Some D)
           = search_similar_chunks cosine_distance (chunks_of_document D s) q k None
         \<and> (\<forall>rs. search_similar_chunks cosine_distance s q k (Some D) = Inr rs \<longrightarrow>
               (\<forall>(c, d) \<in> set rs. document_id c = D)
               \<and> length rs = min (nat k)
                   (length (filter (\<lambda>c. document_id c = D) (document_chunks (working s)))))"
proof (intro conjI allI impI)
  show "search_similar_chunks cosine_distance s q k (Some D)
           = search_similar_chunks cosine_distance (chunks_of_document D s) q k None"
    using assms by (rule search_scope_restricts)
next
  fix rs
  assume r: "search_similar_chunks cosine_distance s q k (Some D) = Inr rs"
  have "\<forall>(c, d) \<in> set rs. c \<in> set (candidates s (Some D))"
    using search_results[OF r] by auto
  then show "\<forall>(c, d) \<in> set rs. document_id c = D"
    using assms by (auto simp: candidates_def)
  show "length rs = min (nat k)
      (length (filter (\<lambda>c. document_id c = D) (document_chunks (working s))))"
    using search_length[OF r] assms by (simp add: candidates_def)
qed

lemma session_two_chunks:
  "\<not> inactive session_two
   \<and> map document_id (document_chunks (working session_two)) = [1, 1, 1, 2]
   \<and> map embedding (document_chunks (working session_two))
       = [Some (axis_vector 3), Some (axis_vector 1), None, Some (axis_vector 7)]"
  by (simp add: session_two_def session_chunks_def good_batch_def session_one_eq
      create_document_def batch_defs EMBEDDING_MODEL_def)

lemma search_two_example:
  "map_sum id (map (\<lambda>(c, d). (document_id c, d)))
     (search_similar_chunks first_gap session_two (axis_vector 0) 1 (Some 2))
     = Inr [(2, Some 7)]
   \<and> map_sum id (map (\<lambda>(c, d). (document_id c, d)))
       (search_similar_chunks first_gap session_two (axis_vector 0) 1 None)
       = Inr [(1, Some 1)]"
  by (simp add: session_two_def session_chunks_def good_batch_def session_one_eq
      create_document_def batch_defs EMBEDDING_MODEL_def search_defs)

text \<open>
  The theorem on the database with three chunks of document 1 and one of document 2, for the
  query at the origin and \<open>k = 1\<close>. The nearest chunk of all belongs to document 1, at
  distance 1; the search scoped to document 2 returns the chunk of document 2, at distance 7.
\<close>

theorem search_similar_chunks_scoped_witness:
  "(2::int) \<noteq> 0
   \<and> map_sum id (map (\<lambda>(c, d). (document_id c, d)))
       (search_similar_chunks first_gap session_two (axis_vector 0) 1 None)
       = Inr [(1, Some 1)]
   \<and> search_similar_chunks first_gap session_two (axis_vector 0) 1 (Some 2)
       = search_similar_chunks first_gap (chunks_of_document 2 session_two) (axis_vector 0) 1 None
   \<and> (\<exists>rs. search_similar_chunks first_gap session_two (axis_vector 0) 1 (Some 2) = Inr rs
         \<and> map (\<lambda>(c, d). (document_id c, d)) rs = [(2, Some 7)]
         \<and> list_all (\<lambda>(c, d). document_id c = 2) rs
         \<and> length rs = 1)"
proof -
  have n: "(2::int) \<noteq> 0" by simp
  note t = search_similar_chunks_scoped[OF n, of first_gap session_two "axis_vector 0" 1]
  obtain rs where rs: "search_similar_chunks first_gap session_two (axis_vector 0) 1 (Some 2)
      = Inr rs"
    using search_returns[of session_two "axis_vector 0" 1 first_gap "Some 2"]
      session_two_chunks
    by (auto simp: axis_vector_def EMBEDDING_DIMENSION_def)
  have m: "map (\<lambda>(c, d). (document_id c, d)) rs = [(2, Some 7)]"
    using search_two_example rs by simp
  have eq: "search_similar_chunks first_gap session_two (axis_vector 0) 1 (Some 2)
       = search_similar_chunks first_gap (chunks_of_document 2 session_two) (axis_vector 0) 1 None"
    using t by (rule conjunct1)
  have "\<forall>(c, d) \<in> set rs. document_id c = 2"
    using t rs by blast
  then have la: "list_all (\<lambda>(c, d). document_id c = 2) rs"
    by (simp add: list_all_iff)
  have "length (map (\<lambda>(c, d). (document_id c, d)) rs) = 1" using m by simp
  then have ll: "length rs = 1" by simp
  have un: "map_sum id (map (\<lambda>(c, d). (document_id c, d)))
       (search_similar_chunks first_gap session_two (axis_vector 0) 1 None)
       = Inr [(1, Some 1)]"
    using search_two_example by (rule conjunct2)
  have ex: "\<exists>rs. search_similar_chunks first_gap session_two (axis_vector 0) 1 (Some 2) = Inr rs
         \<and> map (\<lambda>(c, d). (document_id c, d)) rs = [(2, Some 7)]
         \<and> list_all (\<lambda>(c, d). document_id c = 2) rs
         \<and> length rs = 1"
    using rs m la ll by (intro exI[of _ rs] conjI)
  show ?thesis using n un eq ex by (intro conjI)
qed

text \<open>
  Claim C5 as stated fails at \<open>D = 0\<close>: the search scoped to document 0 returns the three
  chunks of document 1.
\<close>

theorem search_similar_chunks_scoped_counterexample:
  "map_sum id (map (document_id \<circ> fst))
     (search_similar_chunks first_gap session_chunks (axis_vector 0) 5 (Some 0))
     = Inr [1, 1, 1]"
  by (simp add: session_chunks_def good_batch_def session_one_eq batch_defs search_defs)

text \<open>
  Claim C9, as amended. A call of the repository's search that omits the result count uses
  \<open>limit = 10\<close> and returns at most 10 pairs; the retrieval of the chat agent passes
  \<open>limit = 5\<close> itself and gets at most 5.
\<close>

theorem search_default_limit:
  "search_similar_chunks_default cosine_distance s q
     = search_similar_chunks cosine_distance s q 10 None
   \<and> (\<forall>rs. search_similar_chunks_default cosine_distance s q = Inr rs \<longrightarrow> length rs \<le> 10)
   \<and> (\<forall>rs. retrieve_context_results cosine_distance srv q = Inr rs \<longrightarrow> length rs \<le> 5)"
proof -
  have "\<forall>rs. search_similar_chunks cosine_distance s q 10 None = Inr rs \<longrightarrow> length rs \<le> 10"
    using search_results[of cosine_distance s q 10 None] by auto
  moreover have "\<forall>rs. search_similar_chunks cosine_distance (SessionLocal srv) q 5 None = Inr rs
      \<longrightarrow> length rs \<le> 5"
    using search_results[of cosine_distance "SessionLocal srv" q 5 None] by auto
  ultimately show ?thesis
    by (simp add: search_similar_chunks_default_def retrieve_context_results_def)
qed

lemma session_twelve_active: "\<not> inactive session_twelve"
  by (simp add: session_twelve_def twelve_batch_def numbered_chunk_def session_one_eq
      batch_defs)

lemma search_twelve_example:
  "map_sum id (map (chunk_index \<circ> fst))
     (search_similar_chunks_default first_gap session_twelve (axis_vector 0))
     = Inr [0, 1, 2, 3, 4, 5, 6, 7, 8, 9]"
  by (simp add: search_similar_chunks_default_def session_twelve_def twelve_batch_def
      numbered_chunk_def session_one_eq batch_defs search_defs)

lemma retrieve_twelve_example:
  "map_sum id (map (chunk_index \<circ> fst))
     (retrieve_context_results first_gap (close session_twelve) (axis_vector 0))
     = Inr [0, 1, 2, 3, 4]"
  by (simp add: retrieve_context_results_def SessionLocal_def close_def session_twelve_def
      twelve_batch_def numbered_chunk_def session_one_eq batch_defs search_defs)

text \<open>
  The theorem on the database with twelve embedded chunks, for the query at the origin: the
  call without a count returns the ten nearest chunks, the agent's retrieval the five
  nearest.
\<close>

theorem search_default_limit_witness:
  "(\<exists>rs. search_similar_chunks_default first_gap session_twelve (axis_vector 0) = Inr rs
       \<and> map (chunk_index \<circ> fst) rs = [0, 1, 2, 3, 4, 5, 6, 7, 8, 9]
       \<and> length rs \<le> 10)
   \<and> (\<exists>rs. retrieve_context_results first_gap (close session_twelve) (axis_vector 0) = Inr rs
       \<and> map (chunk_index \<circ> fst) rs = [0, 1, 2, 3, 4]
       \<and> length rs \<le> 5)"
proof -
  obtain rs where a: "search_similar_chunks_default first_gap session_twelve (axis_vector 0)
      = Inr rs" and la: "map (chunk_index \<circ> fst) rs = [0, 1, 2, 3, 4, 5, 6, 7, 8, 9]"
    using search_twelve_example
    by (cases "search_similar_chunks_default first_gap session_twelve (axis_vector 0)") auto
  obtain rs' where b: "retrieve_context_results first_gap (close session_twelve)
      (axis_vector 0) = Inr rs'" and lb: "map (chunk_index \<circ> fst) rs' = [0, 1, 2, 3, 4]"
    using retrieve_twelve_example
    by (cases "retrieve_context_results first_gap (close session_twelve) (axis_vector 0)")
      auto
  from search_default_limit[of first_gap session_twelve "axis_vector 0"
      "close session_twelve"] a b
  have "length rs \<le> 10 \<and> length rs' \<le> 5" by blast
  then show ?thesis using a b la lb by simp
qed

text \<open>
  Claim C9 as stated fails: on the database with twelve embedded chunks, the call that omits
  the result count returns ten results, more than five.
\<close>

theorem search_default_limit_counterexample:
  "map_sum id length
     (search_similar_chunks_default first_gap session_twelve (axis_vector 0))
     = Inr 10"
  by (simp add: search_similar_chunks_default_def session_twelve_def twelve_batch_def
      numbered_chunk_def session_one_eq batch_defs search_defs)

section \<open>Facts about the pipeline\<close>

subsection \<open>Sessions without pending work\<close>

lemma SessionLocal_clean: "clean (SessionLocal srv)"
  by (simp add: clean_def SessionLocal_def)

lemma update_document_content_clean:
  assumes "clean s" and "find (\<lambda>d. doc_id d = did) (documents (working s)) = Some d"
  shows "\<exists>d1 s1. update_document_content s now did content n k = (Inr (Some d1), s1)
          \<and> clean s1
          \<and> find (\<lambda>d. doc_id d = did) (documents (working s1)) = Some d1
          \<and> status d1 = status d \<and> error_message d1 = error_message d
          \<and> num_chunks d1 = k
          \<and> document_chunks (working s1) = document_chunks (working s)"
proof -
  let ?d1 = "d\<lparr>markdown_content := Some content, markdown_length := Some n, num_chunks := k\<rparr>"
  let ?W = "write_document now d ?d1 (working s)"
  have g: "get_document s did = Inr (Some d)"
    using assms by (simp add: get_document_def clean_def)
  have run: "update_document_content s now did content n k =
      (Inr (Some (stamp now d ?d1)), s\<lparr>working := ?W, server := (server s)\<lparr>srv_tables := ?W\<rparr>\<rparr>)"
    using g assms(1) by (simp add: update_document_content_def Let_def commit_def clean_def)
  have "find (\<lambda>d. doc_id d = did) (documents ?W) = Some (stamp now d ?d1)"
    using assms(2) by (intro find_write_document) simp_all
  then show ?thesis using run assms(1)
    by (simp add: clean_def stamp_fields chunks_write_document)
qed

lemma update_document_content_missing:
  assumes "clean s" and "find (\<lambda>d. doc_id d = did) (documents (working s)) = None"
  shows "update_document_content s now did content n k = (Inr None, s)"
  using assms by (simp add: update_document_content_def get_document_def clean_def)

lemma update_document_status_clean:
  assumes "clean s" and "find (\<lambda>d. doc_id d = did) (documents (working s)) = Some d"
  shows "\<exists>d1 s1. update_document_status s now did st err = (Inr (Some d1), s1)
          \<and> clean s1
          \<and> find (\<lambda>d. doc_id d = did) (documents (working s1)) = Some d1
          \<and> status d1 = st \<and> error_message d1 = err
          \<and> num_chunks d1 = num_chunks d
          \<and> document_chunks (working s1) = document_chunks (working s)"
proof -
  define d2 where "d2 =
    (if st = COMPLETED then d\<lparr>status := st, error_message := err, completed_at := Some now\<rparr>
     else d\<lparr>status := st, error_message := err\<rparr>)"
  let ?W = "write_document now d d2 (working s)"
  have g: "get_document s did = Inr (Some d)"
    using assms by (simp add: get_document_def clean_def)
  have run: "update_document_status s now did st err =
      (Inr (Some (stamp now d d2)), s\<lparr>working := ?W, server := (server s)\<lparr>srv_tables := ?W\<rparr>\<rparr>)"
    using g assms(1) by (simp add: update_document_status_def Let_def commit_def clean_def d2_def)
  have "find (\<lambda>d. doc_id d = did) (documents ?W) = Some (stamp now d d2)"
    using assms(2) by (intro find_write_document) (simp_all add: d2_def)
  moreover have "status (stamp now d d2) = st \<and> error_message (stamp now d d2) = err
      \<and> num_chunks (stamp now d d2) = num_chunks d"
    by (simp add: stamp_fields d2_def)
  ultimately show ?thesis using run assms(1)
    by (simp add: clean_def chunks_write_document)
qed

lemma update_document_status_missing:
  assumes "clean s" and "find (\<lambda>d. doc_id d = did) (documents (working s)) = None"
  shows "update_document_status s now did st err = (Inr None, s)"
  using assms by (simp add: update_document_status_def get_document_def clean_def)

lemma update_document_status_inactive:
  "inactive s \<Longrightarrow> update_document_status s now did st err = (Inl PendingRollbackError, s)"
  by (simp add: update_document_status_def get_document_def)

lemma create_chunks_batch_clean:
  assumes "clean s" and "create_chunks_batch s now did cds = (r, s')"
  shows "(\<exists>e. r = Inl e \<and> inactive s' \<and> srv_tables (server s') = srv_tables (server s))
       \<or> (\<exists>rows. r = Inr rows \<and> clean s'
            \<and> documents (working s') = documents (working s)
            \<and> document_chunks (working s') = document_chunks (working s) @ rows
            \<and> list_all2 same_fields rows (map (DocumentChunk did) cds))"
proof -
  have act: "\<not> inactive s" using assms(1) by (simp add: clean_def)
  from create_chunks_batch_cases[OF assms(2) act] show ?thesis
    by (auto simp: flush_failed_def clean_def)
qed

subsection \<open>The steps before persistence\<close>

lemma hybrid_chunk_document_texts:
  "hybrid_chunk_document sv doc n = Inr chunks \<Longrightarrow>
     \<exists>dcs. chunker sv doc n = Inr dcs \<and> map ck_text chunks = map dl_text dcs"
  by (auto simp: hybrid_chunk_document_def o_def split: sum.splits)

lemma generate_embeddings_Inr:
  assumes "generate_embeddings sv chunks = Inr eds"
  shows "\<exists>vs. embed_documents sv (map ck_text chunks) = Inr vs
          \<and> length eds = min (length chunks) (length vs)
          \<and> map ed_chunk_id eds = map int [0..<length eds]
          \<and> map ed_text eds = take (length eds) (map ck_text chunks)"
proof -
  from assms obtain vs where e: "embed_documents sv (map ck_text chunks) = Inr vs"
    and eds: "eds = map (\<lambda>(idx, c, v).
                         \<lparr>ed_chunk_id = int idx, ed_text = ck_text c, ed_metadata = ck_meta c,
                          ed_embedding = v, ed_embedding_dimension = int (length v)\<rparr>)
                    (enumerate 0 (zip chunks vs))"
    by (auto simp: generate_embeddings_def Let_def split: sum.splits)
  have l: "length eds = min (length chunks) (length vs)" using eds by simp
  have "map ed_chunk_id eds = map (int \<circ> fst) (enumerate 0 (zip chunks vs))"
    using eds by (simp add: o_def split_def)
  then have i: "map ed_chunk_id eds = map int [0..<length eds]"
    using l by (simp add: map_map[symmetric] del: map_map)
  have "map ed_text eds = map (ck_text \<circ> fst \<circ> snd) (enumerate 0 (zip chunks vs))"
    using eds by (simp add: o_def split_def)
  also have "\<dots> = map ck_text (map fst (zip chunks vs))"
    by (simp add: map_map[symmetric] del: map_map)
  also have "\<dots> = take (length eds) (map ck_text chunks)"
    using l by (simp add: map_fst_zip_take take_map)
  finally show ?thesis using e l i by blast
qed

lemma chunks_data_of_fields:
  "map cd_chunk_index (chunks_data_of eds) = map ed_chunk_id eds
   \<and> map cd_text (chunks_data_of eds) = map ed_text eds
   \<and> length (chunks_data_of eds) = length eds"
  by (simp add: chunks_data_of_def o_def)

lemma rows_of_batch:
  assumes "list_all2 same_fields rows (map (DocumentChunk did) cds)"
  shows "length rows = length cds \<and> map document_id rows = map (\<lambda>_. did) cds
         \<and> map chunk_index rows = map cd_chunk_index cds
         \<and> map chunk_text rows = map cd_text cds"
  using assms
  by (induction rows cds rule: list_induct2')
     (auto simp: same_fields_def DocumentChunk_def)

subsection \<open>The handler\<close>

lemma except_block_inactive:
  "inactive (db st) \<Longrightarrow>
     except_block e now jid did tmp st = (Some PendingRollbackError, st)"
  by (simp add: except_block_def update_document_status_inactive)

lemma except_block_marks_failed:
  assumes "clean (db st)"
    and "find (\<lambda>d. doc_id d = did) (documents (working (db st))) = Some d"
    and "except_block e now jid did tmp st = (r, st')"
  shows "\<exists>d'. clean (db st')
          \<and> find (\<lambda>d. doc_id d = did) (documents (working (db st'))) = Some d'
          \<and> status d' = FAILED \<and> error_message d' = Some (str_exn e)
          \<and> document_chunks (working (db st')) = document_chunks (working (db st))
          \<and> tmp \<notin> fs st'
          \<and> (case jobs st jid of
                None \<Rightarrow> r = Some (KeyError jid) \<and> jobs st' = jobs st
              | Some j \<Rightarrow> r = None
                  \<and> jobs st' = (jobs st)(jid \<mapsto> j\<lparr>job_status := ''failed'',
                        job_completed_at := Some now, job_error := Some (str_exn e)\<rparr>))"
proof -
  from update_document_status_clean[OF assms(1,2), of now FAILED "Some (str_exn e)"]
  obtain d1 s1 where u: "update_document_status (db st) now did FAILED (Some (str_exn e))
        = (Inr (Some d1), s1)"
    and p: "clean s1" "find (\<lambda>d. doc_id d = did) (documents (working s1)) = Some d1"
      "status d1 = FAILED" "error_message d1 = Some (str_exn e)"
      "document_chunks (working s1) = document_chunks (working (db st))"
    by blast
  have "db st' = s1 \<and> tmp \<notin> fs st'
      \<and> (case jobs st jid of
                None \<Rightarrow> r = Some (KeyError jid) \<and> jobs st' = jobs st
              | Some j \<Rightarrow> r = None
                  \<and> jobs st' = (jobs st)(jid \<mapsto> j\<lparr>job_status := ''failed'',
                        job_completed_at := Some now, job_error := Some (str_exn e)\<rparr>))"
    using assms(3) u
    by (auto simp: except_block_def Let_def os_unlink_def job_failed_def
        split: option.splits if_splits)
  then show ?thesis using p by auto
qed

subsection \<open>The three ways through the body of the task\<close>

lemma convert_document_Inr:
  "convert_document sv path = Inr doc \<Longrightarrow> converter sv path = Inr doc"
  by (auto simp: convert_document_def split: sum.splits)

lemma try_block_cases:
  assumes c: "clean (db st)"
    and f: "find (\<lambda>d. doc_id d = did) (documents (working (db st))) = Some d"
    and t: "try_block sv now jid did tmp fname csize st = (r, st')"
    and contract: "\<forall>texts vs. embed_documents sv texts = Inr vs \<longrightarrow> length vs = length texts"
  shows "(\<exists>e. r = Some e \<and> st' = st)
       \<or> (\<exists>e d1. r = Some e \<and> inactive (db st')
            \<and> find (\<lambda>d. doc_id d = did) (documents (srv_tables (server (db st')))) = Some d1
            \<and> status d1 = status d)
       \<or> (\<exists>doc dcs rows d3. converter sv tmp = Inr doc \<and> chunker sv doc csize = Inr dcs
            \<and> clean (db st')
            \<and> find (\<lambda>d. doc_id d = did) (documents (working (db st'))) = Some d3
            \<and> status d3 = COMPLETED \<and> num_chunks d3 = int (length dcs)
            \<and> document_chunks (working (db st')) = document_chunks (working (db st)) @ rows
            \<and> map document_id rows = map (\<lambda>_. did) dcs
            \<and> map chunk_index rows = map int [0..<length dcs]
            \<and> map chunk_text rows = map dl_text dcs)"
proof (cases "convert_document sv tmp")
  case (Inl e)
  then show ?thesis using t by (auto simp: try_block_def)
next
  case conv: (Inr doc)
  show ?thesis
  proof (cases "export_to_markdown sv doc")
    case (Inl m)
    then show ?thesis using t conv by (auto simp: try_block_def)
  next
    case exp: (Inr markdown)
    show ?thesis
    proof (cases "hybrid_chunk_document sv doc csize")
      case (Inl e)
      then show ?thesis using t conv exp by (auto simp: try_block_def)
    next
      case chk: (Inr chunks)
      show ?thesis
      proof (cases "generate_embeddings sv chunks")
        case (Inl e)
        then show ?thesis using t conv exp chk by (auto simp: try_block_def)
      next
        case emb: (Inr eds)
        from hybrid_chunk_document_texts[OF chk] obtain dcs
          where dcs: "chunker sv doc csize = Inr dcs" "map ck_text chunks = map dl_text dcs"
          by blast
        have lc: "length chunks = length dcs" using dcs(2) by (metis length_map)
        from generate_embeddings_Inr[OF emb] contract
        have le: "length eds = length chunks"
          and ei: "map ed_chunk_id eds = map int [0..<length eds]"
          and et: "map ed_text eds = take (length eds) (map ck_text chunks)"
          by auto
        from update_document_content_clean[OF c f, of now markdown
            "int (length markdown)" "int (length chunks)"]
        obtain d1 s1 where u1: "update_document_content (db st) now did markdown
              (int (length markdown)) (int (length chunks)) = (Inr (Some d1), s1)"
          and p1: "clean s1" "find (\<lambda>d. doc_id d = did) (documents (working s1)) = Some d1"
            "status d1 = status d" "num_chunks d1 = int (length chunks)"
            "document_chunks (working s1) = document_chunks (working (db st))"
          by blast
        obtain r2 s2 where cb: "create_chunks_batch s1 now did (chunks_data_of eds) = (r2, s2)"
          by (cases "create_chunks_batch s1 now did (chunks_data_of eds)")
        from create_chunks_batch_clean[OF p1(1) cb] show ?thesis
        proof (elim disjE exE conjE)
          fix e
          assume a: "r2 = Inl e" "inactive s2" "srv_tables (server s2) = srv_tables (server s1)"
          have "r = Some e" "db st' = s2"
            using t conv exp chk emb u1 cb a(1) by (auto simp: try_block_def)
          moreover have "find (\<lambda>d. doc_id d = did) (documents (srv_tables (server s2))) = Some d1"
            using a(3) p1(1,2) by (simp add: clean_def)
          ultimately show ?thesis using a(2) p1(3) by auto
        next
          fix rows
          assume a: "r2 = Inr rows" "clean s2" "documents (working s2) = documents (working s1)"
            "document_chunks (working s2) = document_chunks (working s1) @ rows"
            "list_all2 same_fields rows (map (DocumentChunk did) (chunks_data_of eds))"
          have f2: "find (\<lambda>d. doc_id d = did) (documents (working s2)) = Some d1"
            using a(3) p1(2) by simp
          from update_document_status_clean[OF a(2) f2, of now COMPLETED None]
          obtain d3 s3 where u3: "update_document_status s2 now did COMPLETED None
                = (Inr (Some d3), s3)"
            and p3: "clean s3" "find (\<lambda>d. doc_id d = did) (documents (working s3)) = Some d3"
              "status d3 = COMPLETED" "num_chunks d3 = num_chunks d1"
              "document_chunks (working s3) = document_chunks (working s2)"
            by blast
          have st': "db st' = s3"
            using t conv exp chk emb u1 cb a(1) u3
            by (auto simp: try_block_def split: sum.splits)
          note rb = rows_of_batch[OF a(5)]
          note cf = chunks_data_of_fields[of eds]
          have "map document_id rows = map (\<lambda>_. did) dcs"
            using rb cf le lc by (simp add: map_replicate_const)
          moreover have "map chunk_index rows = map int [0..<length dcs]"
            using rb cf ei le lc by simp
          moreover have "map chunk_text rows = map dl_text dcs"
            using rb cf et le lc dcs(2) by simp
          ultimately show ?thesis
            using convert_document_Inr[OF conv] dcs(1) st' p3 p1(4,5) a(4) lc by auto
        qed
      qed
    qed
  qed
qed


subsection \<open>A run whose embedding step raises\<close>

lemma initial_state_clean:
  assumes "persisted_document w did = Some d"
  shows "clean (db \<lparr>db = SessionLocal (pg w), fs = files w, jobs = jobs_storage w\<rparr>)
    \<and> find (\<lambda>d. doc_id d = did)
         (documents (working (db \<lparr>db = SessionLocal (pg w), fs = files w,
                                  jobs = jobs_storage w\<rparr>))) = Some d"
  using assms by (simp add: persisted_document_def SessionLocal_def clean_def)

text \<open>
  Claim C2. Take a run for a document that exists and has no chunks, with its job in the
  job dictionary, in which conversion, export and chunking succeed and the embedder raises.
  The task ends without an exception escaping; the document is \<open>FAILED\<close> with an error
  message, the message of the raised \<open>HTTPException\<close>; the chunk table is untouched, so the
  document has no chunks; the temporary file does not exist; and the job is \<open>failed\<close> with
  the same message.
\<close>

theorem embedding_failure_marks_failed:
  assumes "converter sv tmp = Inr doc"
    and "export_to_markdown sv doc = Inr markdown"
    and "chunker sv doc csize = Inr dcs"
    and "embed_documents sv (map dl_text dcs) = Inl msg"
    and "persisted_document w did = Some d"
    and "persisted_chunks w did = []"
    and "jobs_storage w jid = Some j"
  shows "\<exists>w' d' j'. process_document_task sv now jid did tmp fname csize w = (None, w')
          \<and> persisted_document w' did = Some d'
          \<and> status d' = FAILED
          \<and> error_message d'
              = Some (str_exn (HTTPException 500 (''Embedding generation failed: '' @ msg)))
          \<and> document_chunks (srv_tables (pg w')) = document_chunks (srv_tables (pg w))
          \<and> persisted_chunks w' did = []
          \<and> tmp \<notin> files w'
          \<and> jobs_storage w' jid = Some j'
          \<and> job_status j' = ''failed''
          \<and> job_error j' = error_message d'"
proof -
  let ?e = "HTTPException 500 (''Embedding generation failed: '' @ msg)"
  let ?st0 = "\<lparr>db = SessionLocal (pg w), fs = files w, jobs = jobs_storage w\<rparr>"
  have t: "try_block sv now jid did tmp fname csize ?st0 = (Some ?e, ?st0)"
    using assms(1-4)
    by (simp add: try_block_def convert_document_def hybrid_chunk_document_def
        generate_embeddings_def o_def)
  obtain r st' where x: "except_block ?e now jid did tmp ?st0 = (r, st')"
    by (cases "except_block ?e now jid did tmp ?st0")
  note i = initial_state_clean[OF assms(5)]
  from except_block_marks_failed[OF i[THEN conjunct1] i[THEN conjunct2] x] assms(7)
  obtain d' where p: "clean (db st')"
      "find (\<lambda>d. doc_id d = did) (documents (working (db st'))) = Some d'"
      "status d' = FAILED" "error_message d' = Some (str_exn ?e)"
      "document_chunks (working (db st')) = document_chunks (working (db ?st0))"
      "tmp \<notin> fs st'" "r = None"
      "jobs st' = (jobs ?st0)(jid \<mapsto> j\<lparr>job_status := ''failed'',
                        job_completed_at := Some now, job_error := Some (str_exn ?e)\<rparr>)"
    by auto
  let ?w' = "\<lparr>pg = close (db st'), files = fs st', jobs_storage = jobs st'\<rparr>"
  have run: "process_document_task sv now jid did tmp fname csize w = (None, ?w')"
    using t x p(7) by (simp add: process_document_task_def)
  have tb: "srv_tables (pg ?w') = working (db st')"
    using p(1) by (simp add: close_def clean_def)
  have ch: "document_chunks (srv_tables (pg ?w')) = document_chunks (srv_tables (pg w))"
    using tb p(5) by (simp add: SessionLocal_def)
  have "persisted_document ?w' did = Some d'"
    using tb p(2) by (simp add: persisted_document_def)
  moreover have "persisted_chunks ?w' did = []"
    using ch assms(6) by (simp add: persisted_chunks_def)
  ultimately show ?thesis using run p(3,4,6,8) ch by simp
qed

lemmas world_defs =
  world_one_def close_def new_job_def example_services_def example_chunks_def
  persisted_document_def persisted_chunks_def

text \<open>
  The theorem on the uploaded document with the embedder that raises \<open>rate limit exceeded\<close>.
\<close>

theorem embedding_failure_marks_failed_witness:
  "converter (example_services failing_embedder) ''/tmp/upload.pdf'' = Inr ''docling document''
   \<and> export_to_markdown (example_services failing_embedder) ''docling document'' = Inr ''# Title''
   \<and> chunker (example_services failing_embedder) ''docling document'' 512 = Inr example_chunks
   \<and> embed_documents (example_services failing_embedder) (map dl_text example_chunks)
       = Inl ''rate limit exceeded''
   \<and> (\<exists>d. persisted_document world_one 1 = Some d)
   \<and> persisted_chunks world_one 1 = []
   \<and> (\<exists>j. jobs_storage world_one ''job-1'' = Some j)
   \<and> (\<exists>w' d' j'. process_document_task (example_services failing_embedder) 5 ''job-1'' 1
                     ''/tmp/upload.pdf'' ''a.pdf'' 512 world_one = (None, w')
          \<and> persisted_document w' 1 = Some d'
          \<and> status d' = FAILED
          \<and> error_message d' = Some ''500: Embedding generation failed: rate limit exceeded''
          \<and> persisted_chunks w' 1 = []
          \<and> ''/tmp/upload.pdf'' \<notin> files w'
          \<and> jobs_storage w' ''job-1'' = Some j'
          \<and> job_status j' = ''failed''
          \<and> job_error j' = error_message d')"
proof -
  have a: "converter (example_services failing_embedder) ''/tmp/upload.pdf''
      = Inr ''docling document''"
    by (simp add: example_services_def)
  have b: "export_to_markdown (example_services failing_embedder) ''docling document''
      = Inr ''# Title''"
    by (simp add: example_services_def)
  have c: "chunker (example_services failing_embedder) ''docling document'' 512
      = Inr example_chunks"
    by (simp add: example_services_def)
  have d: "embed_documents (example_services failing_embedder) (map dl_text example_chunks)
      = Inl ''rate limit exceeded''"
    by (simp add: example_services_def failing_embedder_def)
  obtain d0 where e: "persisted_document world_one 1 = Some d0"
    by (simp add: world_defs session_one_eq)
  have f: "persisted_chunks world_one 1 = []"
    by (simp add: world_defs session_one_eq)
  obtain j0 where g: "jobs_storage world_one ''job-1'' = Some j0"
    by (simp add: world_defs)
  have s: "str_exn (HTTPException 500 (''Embedding generation failed: '' @ ''rate limit exceeded''))
      = ''500: Embedding generation failed: rate limit exceeded''"
    by (simp add: str_nat.simps)
  from embedding_failure_marks_failed[OF a b c d e f g, of 5 "''a.pdf''"] s
  have "\<exists>w' d' j'. process_document_task (example_services failing_embedder) 5 ''job-1'' 1
                     ''/tmp/upload.pdf'' ''a.pdf'' 512 world_one = (None, w')
          \<and> persisted_document w' 1 = Some d'
          \<and> status d' = FAILED
          \<and> error_message d' = Some ''500: Embedding generation failed: rate limit exceeded''
          \<and> persisted_chunks w' 1 = []
          \<and> ''/tmp/upload.pdf'' \<notin> files w'
          \<and> jobs_storage w' ''job-1'' = Some j'
          \<and> job_status j' = ''failed''
          \<and> job_error j' = error_message d'"
    by auto
  then show ?thesis using a b c d e f g by blast
qed


subsection \<open>A run that completes\<close>

lemma filter_all_same:
  "map document_id rows = map (\<lambda>_. did) xs \<Longrightarrow>
     filter (\<lambda>c. document_id c = did) rows = rows"
proof -
  assume a: "map document_id rows = map (\<lambda>_. did) xs"
  have "\<forall>c \<in> set rows. document_id c = did"
  proof
    fix c assume "c \<in> set rows"
    then have "document_id c \<in> set (map document_id rows)" by simp
    then show "document_id c = did" using a by auto
  qed
  then show ?thesis by simp
qed

text \<open>
  Claim C3. Take a run for a document that exists, is not yet completed and has no chunks,
  with an embedder that returns one vector per text. If the run leaves the document
  \<open>COMPLETED\<close>, then its \<open>num_chunks\<close> is the number of persisted chunks of the document,
  their \<open>chunk_index\<close> values in table order are \<open>0, 1, \<dots>, num_chunks - 1\<close>, and their
  texts are the texts of the chunker's chunks, in the chunker's order.
\<close>

theorem completed_document_chunks:
  assumes "persisted_document w did = Some d"
    and "status d \<noteq> COMPLETED"
    and "persisted_chunks w did = []"
    and "\<forall>texts vs. embed_documents sv texts = Inr vs \<longrightarrow> length vs = length texts"
    and "process_document_task sv now jid did tmp fname csize w = (r, w')"
    and "persisted_document w' did = Some d'"
    and "status d' = COMPLETED"
  shows "num_chunks d' = int (length (persisted_chunks w' did))
         \<and> map chunk_index (persisted_chunks w' did)
             = map int [0..<length (persisted_chunks w' did)]
         \<and> (\<exists>doc dcs. converter sv tmp = Inr doc \<and> chunker sv doc csize = Inr dcs
               \<and> map chunk_text (persisted_chunks w' did) = map dl_text dcs)"
proof -
  let ?st0 = "\<lparr>db = SessionLocal (pg w), fs = files w, jobs = jobs_storage w\<rparr>"
  note i = initial_state_clean[OF assms(1)]
  obtain r1 st1 where t: "try_block sv now jid did tmp fname csize ?st0 = (r1, st1)"
    by (cases "try_block sv now jid did tmp fname csize ?st0")
  obtain r2 st2 where h: "(case r1 of None \<Rightarrow> (None, st1)
                            | Some e \<Rightarrow> except_block e now jid did tmp st1) = (r2, st2)"
    by (cases "case r1 of None \<Rightarrow> (None, st1) | Some e \<Rightarrow> except_block e now jid did tmp st1")
  have w': "w' = \<lparr>pg = close (db st2), files = fs st2, jobs_storage = jobs st2\<rparr>"
    using assms(5) t h by (simp add: process_document_task_def)
  have pd: "find (\<lambda>d. doc_id d = did) (documents (srv_tables (server (db st2)))) = Some d'"
    using assms(6) w' by (simp add: persisted_document_def close_def)
  from try_block_cases[OF i[THEN conjunct1] i[THEN conjunct2] t assms(4)] show ?thesis
  proof (elim disjE exE conjE)
    fix e
    assume a: "r1 = Some e" "st1 = ?st0"
    then have x: "except_block e now jid did tmp ?st0 = (r2, st2)" using h by simp
    from except_block_marks_failed[OF i[THEN conjunct1] i[THEN conjunct2] x]
    obtain d2 where "clean (db st2)"
      "find (\<lambda>d. doc_id d = did) (documents (working (db st2))) = Some d2" "status d2 = FAILED"
      by blast
    then have "status d' = FAILED" using pd by (simp add: clean_def)
    then show ?thesis using assms(7) by simp
  next
    fix e d1
    assume a: "r1 = Some e" "inactive (db st1)"
      "find (\<lambda>d. doc_id d = did) (documents (srv_tables (server (db st1)))) = Some d1"
      "status d1 = status d"
    have "st2 = st1" using h a(1) except_block_inactive[OF a(2)] by simp
    then have "d' = d1" using pd a(3) by simp
    then show ?thesis using a(4) assms(2,7) by simp
  next
    fix doc dcs rows d3
    assume a: "converter sv tmp = Inr doc" "chunker sv doc csize = Inr dcs"
      "clean (db st1)"
      "find (\<lambda>d. doc_id d = did) (documents (working (db st1))) = Some d3"
      "status d3 = COMPLETED" "num_chunks d3 = int (length dcs)"
      "document_chunks (working (db st1)) = document_chunks (working (db ?st0)) @ rows"
      "map document_id rows = map (\<lambda>_. did) dcs"
      "map chunk_index rows = map int [0..<length dcs]"
      "map chunk_text rows = map dl_text dcs"
    show ?thesis
    proof (cases r1)
      case None
      then have s: "st2 = st1" using h by simp
      have tb: "srv_tables (server (db st2)) = working (db st1)"
        using a(3) s by (simp add: clean_def)
      have d': "d' = d3" using pd tb a(4) by simp
      have "persisted_chunks w' did
          = filter (\<lambda>c. document_id c = did) (document_chunks (srv_tables (pg w)) @ rows)"
        using w' tb a(7) by (simp add: persisted_chunks_def close_def SessionLocal_def)
      then have pc: "persisted_chunks w' did = rows"
        using assms(3) filter_all_same[OF a(8)] by (simp add: persisted_chunks_def)
      have l: "length rows = length dcs" using a(8) by (metis length_map)
      show ?thesis using pc d' a(1,2,6,9,10) l by auto
    next
      case (Some e)
      then have x: "except_block e now jid did tmp st1 = (r2, st2)" using h by simp
      from except_block_marks_failed[OF a(3,4) x]
      obtain d2 where "clean (db st2)"
        "find (\<lambda>d. doc_id d = did) (documents (working (db st2))) = Some d2"
        "status d2 = FAILED"
        by blast
      then have "status d' = FAILED" using pd by (simp add: clean_def)
      then show ?thesis using assms(7) by simp
    qed
  qed
qed


lemmas run_defs =
  process_document_task_def try_block_def except_block_def convert_document_def
  hybrid_chunk_document_def generate_embeddings_def chunks_data_of_def
  update_document_content_def update_document_status_def get_document_def
  write_document_def stamp_def SessionLocal_def os_unlink_def job_completed_def job_failed_def
  enumerate_eq_zip

lemma good_run_eval:
  "fst good_run = None
   \<and> map_option status (persisted_document (snd good_run) 1) = Some COMPLETED
   \<and> map_option num_chunks (persisted_document (snd good_run) 1) = Some 2
   \<and> map chunk_index (persisted_chunks (snd good_run) 1) = [0, 1]
   \<and> map chunk_text (persisted_chunks (snd good_run) 1) = [''alpha'', ''beta'']
   \<and> ''/tmp/upload.pdf'' \<notin> files (snd good_run)
   \<and> map_option job_status (jobs_storage (snd good_run) ''job-1'') = Some ''completed''"
  by (simp add: good_run_def run_defs world_defs good_embedder_def session_one_eq batch_defs)

text \<open>
  The theorem on the run for the uploaded document with an embedder that returns one vector
  of the declared dimension per text: the document is completed with \<open>num_chunks = 2\<close> and
  the two chunks, indexed 0 and 1, in the chunker's order.
\<close>

theorem completed_document_chunks_witness:
  "(\<exists>d. persisted_document world_one 1 = Some d \<and> status d \<noteq> COMPLETED)
   \<and> persisted_chunks world_one 1 = []
   \<and> (\<exists>d'. persisted_document (snd good_run) 1 = Some d' \<and> status d' = COMPLETED
          \<and> num_chunks d' = 2
          \<and> num_chunks d' = int (length (persisted_chunks (snd good_run) 1)))
   \<and> map chunk_index (persisted_chunks (snd good_run) 1)
       = map int [0..<length (persisted_chunks (snd good_run) 1)]
   \<and> map chunk_index (persisted_chunks (snd good_run) 1) = [0, 1]
   \<and> map chunk_text (persisted_chunks (snd good_run) 1) = [''alpha'', ''beta'']"
proof -
  obtain d where a: "persisted_document world_one 1 = Some d" and b: "status d \<noteq> COMPLETED"
    by (simp add: world_defs session_one_eq)
  have c: "persisted_chunks world_one 1 = []"
    by (simp add: world_defs session_one_eq)
  have e: "\<forall>texts vs. embed_documents (example_services good_embedder) texts = Inr vs
          \<longrightarrow> length vs = length texts"
    by (auto simp: example_services_def good_embedder_def)
  have run: "process_document_task (example_services good_embedder) 5 ''job-1'' 1
       ''/tmp/upload.pdf'' ''a.pdf'' 512 world_one = (fst good_run, snd good_run)"
    by (simp add: good_run_def)
  obtain d' where f: "persisted_document (snd good_run) 1 = Some d'"
    and g: "status d' = COMPLETED" and n: "num_chunks d' = 2"
    using good_run_eval by (cases "persisted_document (snd good_run) 1") auto
  from completed_document_chunks[OF a b c e run f g]
  have "num_chunks d' = int (length (persisted_chunks (snd good_run) 1))
      \<and> map chunk_index (persisted_chunks (snd good_run) 1)
          = map int [0..<length (persisted_chunks (snd good_run) 1)]"
    by blast
  then show ?thesis using a b c f g n good_run_eval by blast
qed

subsection \<open>A run whose chunk insert raises\<close>

text \<open>
  Claim C6 fails on the code. The run for the uploaded document with an embedder whose
  vectors have three components: the content update is committed, the insert of the batch
  raises and rolls the session's transaction back, and the handler's status update, made on
  the same session without a rollback, raises \<open>PendingRollbackError\<close>. That exception leaves
  the task; the document stays \<open>PROCESSING\<close> without error message, with \<open>num_chunks = 2\<close>
  and no chunk; the temporary file is still there and the job is still \<open>processing\<close>.
\<close>

theorem chunk_insert_failure_not_marked_failed:
  "fst short_run = Some PendingRollbackError
   \<and> map_option status (persisted_document (snd short_run) 1) = Some PROCESSING
   \<and> map_option error_message (persisted_document (snd short_run) 1) = Some None
   \<and> map_option num_chunks (persisted_document (snd short_run) 1) = Some 2
   \<and> persisted_chunks (snd short_run) 1 = []
   \<and> ''/tmp/upload.pdf'' \<in> files (snd short_run)
   \<and> map_option job_status (jobs_storage (snd short_run) ''job-1'') = Some ''processing''"
  by (simp add: short_run_def run_defs world_defs short_embedder_def session_one_eq batch_defs)

text \<open>
  The same happens in every run, for a document that exists, in which the steps before
  persistence succeed and the embedder returns one vector per text with one of them of the
  wrong length: the session's exception escapes the task, the document keeps the status and
  the error message it had, and neither the files nor the jobs change.
\<close>

lemma generate_embeddings_vectors:
  assumes "embed_documents sv (map ck_text chunks) = Inr vs" and "length vs = length chunks"
  shows "\<exists>eds. generate_embeddings sv chunks = Inr eds
           \<and> map cd_embedding (chunks_data_of eds) = map Some vs"
proof -
  let ?eds = "map (\<lambda>(idx, c, v).
                         \<lparr>ed_chunk_id = int idx, ed_text = ck_text c, ed_metadata = ck_meta c,
                          ed_embedding = v, ed_embedding_dimension = int (length v)\<rparr>)
                    (enumerate 0 (zip chunks vs))"
  have g: "generate_embeddings sv chunks = Inr ?eds"
    using assms(1) by (simp add: generate_embeddings_def)
  have "map ed_embedding ?eds = map (snd \<circ> snd) (enumerate 0 (zip chunks vs))"
    by (simp add: o_def split_def)
  also have "\<dots> = map snd (zip chunks vs)"
    by (simp add: map_map[symmetric] del: map_map)
  also have "\<dots> = vs" using assms(2) by simp
  finally have "map ed_embedding ?eds = vs" .
  moreover have "map cd_embedding (chunks_data_of ?eds) = map Some (map ed_embedding ?eds)"
    unfolding chunks_data_of_def by (simp add: o_def)
  ultimately have "map cd_embedding (chunks_data_of ?eds) = map Some vs" by simp
  then show ?thesis using g by blast
qed

lemma chunk_insert_failure_general:
  assumes "converter sv tmp = Inr doc"
    and "export_to_markdown sv doc = Inr markdown"
    and "chunker sv doc csize = Inr dcs"
    and "embed_documents sv (map dl_text dcs) = Inr vs"
    and "length vs = length dcs"
    and "\<exists>v \<in> set vs. length v \<noteq> EMBEDDING_DIMENSION"
    and "persisted_document w did = Some d"
  shows "\<exists>w' d'. process_document_task sv now jid did tmp fname csize w
                   = (Some PendingRollbackError, w')
          \<and> persisted_document w' did = Some d'
          \<and> status d' = status d \<and> error_message d' = error_message d
          \<and> files w' = files w \<and> jobs_storage w' = jobs_storage w"
proof -
  let ?st0 = "\<lparr>db = SessionLocal (pg w), fs = files w, jobs = jobs_storage w\<rparr>"
  let ?chunks = "map (\<lambda>c. \<lparr>ck_text = dl_text c,
                             ck_meta = [(''doc_items'', dl_doc_items c),
                                        (''headings'',
                                         case dl_headings c of None \<Rightarrow> [] | Some h \<Rightarrow> h)]\<rparr>)
                 dcs"
  note i = initial_state_clean[OF assms(7)]
  have chk: "hybrid_chunk_document sv doc csize = Inr ?chunks"
    using assms(3) by (simp add: hybrid_chunk_document_def)
  have e': "embed_documents sv (map ck_text ?chunks) = Inr vs"
    using assms(4) by (simp add: o_def)
  have l': "length vs = length ?chunks" using assms(5) by simp
  from generate_embeddings_vectors[OF e' l']
  obtain eds where emb: "generate_embeddings sv ?chunks = Inr eds"
    and ce: "map cd_embedding (chunks_data_of eds) = map Some vs"
    by blast
  from update_document_content_clean[OF i[THEN conjunct1] i[THEN conjunct2], of now markdown
      "int (length markdown)" "int (length ?chunks)"]
  obtain d1 s1 where u1: "update_document_content (db ?st0) now did markdown
        (int (length markdown)) (int (length ?chunks)) = (Inr (Some d1), s1)"
    and p1: "clean s1" "find (\<lambda>d. doc_id d = did) (documents (working s1)) = Some d1"
      "status d1 = status d" "error_message d1 = error_message d"
    by blast
  obtain r2 s2 where cb: "create_chunks_batch s1 now did (chunks_data_of eds) = (r2, s2)"
    by (cases "create_chunks_batch s1 now did (chunks_data_of eds)")
  have act: "\<not> inactive s1" using p1(1) by (simp add: clean_def)
  from assms(6) obtain v where v: "v \<in> set vs" "length v \<noteq> EMBEDDING_DIMENSION" by blast
  then have "Some v \<in> set (map cd_embedding (chunks_data_of eds))" using ce by simp
  then obtain data where dt: "data \<in> set (chunks_data_of eds)" "cd_embedding data = Some v"
    by auto
  have bad: "\<not> (\<forall>data \<in> set (chunks_data_of eds).
                  case cd_embedding data of None \<Rightarrow> True | Some v \<Rightarrow> vector_ok v)"
    using dt v(2) by (auto simp: vector_ok_def intro!: bexI[of _ data])
  from create_chunks_batch_cases[OF cb act] bad
  obtain e s1' where f: "r2 = Inl e" "s2 = flush_failed s1'"
    "srv_tables (server s1') = srv_tables (server s1)"
    by blast
  have ina: "inactive s2" using f(2) by (simp add: flush_failed_def)
  have t: "try_block sv now jid did tmp fname csize ?st0 = (Some e, ?st0\<lparr>db := s2\<rparr>)"
    using assms(1,2) chk emb u1 cb f(1)
    by (simp add: try_block_def convert_document_def)
  have x: "except_block e now jid did tmp (?st0\<lparr>db := s2\<rparr>)
      = (Some PendingRollbackError, ?st0\<lparr>db := s2\<rparr>)"
    using ina by (intro except_block_inactive) simp
  let ?w' = "\<lparr>pg = close s2, files = files w, jobs_storage = jobs_storage w\<rparr>"
  have run: "process_document_task sv now jid did tmp fname csize w
      = (Some PendingRollbackError, ?w')"
    using t x by (simp add: process_document_task_def)
  have "srv_tables (server s2) = working s1"
    using f(2,3) p1(1) by (simp add: flush_failed_def clean_def)
  then have "persisted_document ?w' did = Some d1"
    using p1(2) by (simp add: persisted_document_def close_def)
  then show ?thesis using run p1(3,4) by simp
qed


end
